theory Spec2Isabelle
  imports Complex_Main
begin

section \<open>Data model\<close>

text \<open>
  The functions of the sources start with guards that return without effect when a pointer
  argument is \<^verbatim>\<open>NULL\<close>. The lanes, the scheduler and the system always exist here, so
  those guards have no branch of their own; a pointer that the sources do leave \<^verbatim>\<open>NULL\<close>
  (a queue, the execution history) is an option.
\<close>

text \<open>
  The lane state enumeration of \<^verbatim>\<open>include/lane_process.h\<close>.
\<close>

datatype LaneState = WAITING | READY | RUNNING | BLOCKED

text \<open>
  Modelled from the spec: the vehicle queue (\<^verbatim>\<open>queue.h\<close>, \<^verbatim>\<open>queue.c\<close>) is not among the
  sources. The specification describes it as a bounded FIFO of vehicle ids whose size never
  exceeds its capacity, where an enqueue into a full queue fails and a dequeue from an empty
  queue fails. The callers in \<^verbatim>\<open>lane_process.c\<close> and \<^verbatim>\<open>main.c\<close> use the result of
  \<^verbatim>\<open>enqueue\<close> as a truth value and treat the result \<open>-1\<close> of \<^verbatim>\<open>dequeue\<close> as the empty
  queue.
\<close>

record Queue =
  items :: "int list"
  capacity :: nat

text \<open>Modelled from the spec: a new queue is empty and has the capacity asked for.\<close>

definition create_queue :: "nat \<Rightarrow> Queue" where
  "create_queue cap = \<lparr>items = [], capacity = cap\<rparr>"

text \<open>Modelled from the spec: the size is the number of vehicle ids queued.\<close>

definition get_size :: "Queue \<Rightarrow> int" where
  "get_size q = int (length (items q))"

text \<open>Modelled from the spec: the queue is empty when no vehicle id is queued.\<close>

definition is_empty :: "Queue \<Rightarrow> bool" where
  "is_empty q = (items q = [])"

text \<open>
  Modelled from the spec: \<^verbatim>\<open>enqueue\<close> fails on a queue at capacity and leaves it as it
  is; otherwise it appends the id at the tail.
\<close>

definition enqueue :: "Queue \<Rightarrow> int \<Rightarrow> bool \<times> Queue" where
  "enqueue q v =
     (if length (items q) < capacity q then (True, q\<lparr>items := items q @ [v]\<rparr>)
      else (False, q))"

text \<open>
  Modelled from the spec: \<^verbatim>\<open>dequeue\<close> fails on an empty queue, with the result \<open>-1\<close>
  that its callers test for; otherwise it removes and returns the id at the head.
\<close>

definition dequeue :: "Queue \<Rightarrow> int \<times> Queue" where
  "dequeue q =
     (case items q of
        [] \<Rightarrow> (- 1, q)
      | v # vs \<Rightarrow> (v, q\<lparr>items := vs\<rparr>))"

text \<open>
  The \<^verbatim>\<open>LaneProcess\<close> structure of \<^verbatim>\<open>include/lane_process.h\<close>. C \<^verbatim>\<open>int\<close> and
  \<^verbatim>\<open>time_t\<close> fields are integers; the thread handle, the mutex and the condition variable
  are not fields of the record: every operation below is entered with the lane's lock free
  and releases it before it returns (the two policies that call a locking accessor while
  they hold the lock are modelled with the lock written out). The queue pointer is
  \<open>None\<close> when it is \<^verbatim>\<open>NULL\<close>.
\<close>

record LaneProcess =
  lane_id :: int
  queue :: "Queue option"
  queue_length :: int
  max_queue_length :: int
  state :: LaneState
  priority :: int
  waiting_time :: int
  last_arrival_time :: int
  last_service_time :: int
  total_vehicles_served :: int
  total_waiting_time :: int
  requested_quadrants :: int
  allocated_quadrants :: int

text \<open>Constants of \<^verbatim>\<open>include/trafficguru.h\<close> and \<^verbatim>\<open>limits.h\<close>.\<close>

definition NUM_LANES :: nat where
  "NUM_LANES = 4"

definition MAX_QUEUE_CAPACITY :: nat where
  "MAX_QUEUE_CAPACITY = 20"

definition DEFAULT_TIME_QUANTUM :: int where
  "DEFAULT_TIME_QUANTUM = 3"

definition CONTEXT_SWITCH_TIME :: int where
  "CONTEXT_SWITCH_TIME = 500"

text \<open>
  \<^verbatim>\<open>lane_process.h\<close> defines \<^verbatim>\<open>VEHICLE_CROSS_TIME\<close> as 2 and \<^verbatim>\<open>trafficguru.h\<close>, included
  after it, defines it again as 3; the later definition is the one in force in
  \<^verbatim>\<open>sjf_scheduler.c\<close>.
\<close>

definition VEHICLE_CROSS_TIME :: int where
  "VEHICLE_CROSS_TIME = 3"

definition BATCH_EXIT_SIZE :: int where
  "BATCH_EXIT_SIZE = 3"

definition INT_MAX :: int where
  "INT_MAX = 2147483647"

definition INT_MIN :: int where
  "INT_MIN = - 2147483648"

text \<open>
  A C \<^verbatim>\<open>int\<close> expression is defined only when its mathematical value fits in 32 bits.
\<close>

definition int_in_range :: "int \<Rightarrow> bool" where
  "int_in_range x = (INT_MIN \<le> x \<and> x \<le> INT_MAX)"

text \<open>
  A value that is stored in a C \<^verbatim>\<open>int\<close> keeps its low 32 bits, read in two's complement:
  this is what the cast \<^verbatim>\<open>(int)\<close> of a \<^verbatim>\<open>time_t\<close> difference does, and what the compiled
  code does with an \<^verbatim>\<open>int\<close> product that does not fit.
\<close>

definition int_cast :: "int \<Rightarrow> int" where
  "int_cast x = (x - INT_MIN) mod 4294967296 + INT_MIN"

section \<open>Lane operations (\<^verbatim>\<open>src/lane_process.c\<close>)\<close>

text \<open>
  \<^verbatim>\<open>memset\<close> of the system structure leaves every lane with all fields zero, the state
  \<open>WAITING\<close> (the enumerator 0) and no queue.
\<close>

definition zeroed_lane :: LaneProcess where
  "zeroed_lane =
     \<lparr>lane_id = 0, queue = None, queue_length = 0, max_queue_length = 0, state = WAITING,
      priority = 0, waiting_time = 0, last_arrival_time = 0, last_service_time = 0,
      total_vehicles_served = 0, total_waiting_time = 0, requested_quadrants = 0,
      allocated_quadrants = 0\<rparr>"

text \<open>
  \<^verbatim>\<open>init_lane_process\<close>: returns without a change on an id outside 0..3 or a capacity that
  is not positive; \<open>now\<close> is \<^verbatim>\<open>time(NULL)\<close>.
\<close>

definition init_lane_process :: "LaneProcess \<Rightarrow> int \<Rightarrow> int \<Rightarrow> int \<Rightarrow> LaneProcess" where
  "init_lane_process lane lane_no max_capacity now =
     (if lane_no < 0 \<or> lane_no \<ge> 4 \<or> max_capacity \<le> 0 then lane
      else lane\<lparr>lane_id := lane_no, queue := Some (create_queue (nat max_capacity)),
             queue_length := 0, max_queue_length := max_capacity, state := WAITING,
             priority := 2, waiting_time := 0, last_arrival_time := now,
             last_service_time := 0, total_vehicles_served := 0, total_waiting_time := 0,
             requested_quadrants := 0, allocated_quadrants := 0\<rparr>)"

text \<open>
  \<^verbatim>\<open>add_vehicle_to_lane\<close> returns nothing. It does nothing on a lane without a queue;
  otherwise the cached length and the arrival time are written only when \<^verbatim>\<open>enqueue\<close>
  succeeded.
\<close>

definition add_vehicle_to_lane :: "LaneProcess \<Rightarrow> int \<Rightarrow> int \<Rightarrow> LaneProcess" where
  "add_vehicle_to_lane lane vehicle_id now =
     (case queue lane of
        None \<Rightarrow> lane
      | Some q \<Rightarrow>
          (case enqueue q vehicle_id of
             (True, q') \<Rightarrow>
               lane\<lparr>queue := Some q', queue_length := get_size q', last_arrival_time := now\<rparr>
           | (False, q') \<Rightarrow> lane\<lparr>queue := Some q'\<rparr>))"

text \<open>
  \<^verbatim>\<open>remove_vehicle_from_lane_unlocked\<close> (and \<^verbatim>\<open>remove_vehicle_from_lane\<close>, which differs
  only in taking the lock): the cached length is refreshed whether or not a vehicle was
  removed.
\<close>

definition remove_vehicle_from_lane_unlocked :: "LaneProcess \<Rightarrow> int \<times> LaneProcess" where
  "remove_vehicle_from_lane_unlocked lane =
     (case queue lane of
        None \<Rightarrow> (- 1, lane)
      | Some q \<Rightarrow>
          (case dequeue q of
             (vehicle_id, q') \<Rightarrow> (vehicle_id, lane\<lparr>queue := Some q', queue_length := get_size q'\<rparr>)))"

definition update_lane_state :: "LaneProcess \<Rightarrow> LaneState \<Rightarrow> LaneProcess" where
  "update_lane_state lane new_state = lane\<lparr>state := new_state\<rparr>"

definition is_lane_ready :: "LaneProcess \<Rightarrow> bool" where
  "is_lane_ready lane = (state lane = READY \<and> queue_length lane > 0)"

definition request_intersection_quadrants :: "LaneProcess \<Rightarrow> int \<Rightarrow> LaneProcess" where
  "request_intersection_quadrants lane quadrants = lane\<lparr>requested_quadrants := quadrants\<rparr>"

definition release_intersection_quadrants :: "LaneProcess \<Rightarrow> LaneProcess" where
  "release_intersection_quadrants lane =
     lane\<lparr>allocated_quadrants := 0, requested_quadrants := 0\<rparr>"

text \<open>
  Modelled from the spec: the resource state of the allocator (\<^verbatim>\<open>bankers_algorithm.h\<close>)
  is not among the sources. The specification gives the total as 4 quadrants and the
  available pool as the total minus the sum of the lanes' allocations.
\<close>

definition TOTAL_QUADRANTS :: int where
  "TOTAL_QUADRANTS = 4"

text \<open>
  Modelled from the spec: the available pool, \<open>available = total - \<Sum>allocation\<close>, with
  the allocation of a lane read from its field \<^verbatim>\<open>allocated_quadrants\<close>.
\<close>

definition available_quadrants :: "LaneProcess list \<Rightarrow> int" where
  "available_quadrants lanes = TOTAL_QUADRANTS - sum_list (map allocated_quadrants lanes)"

section \<open>Scheduling policies (\<^verbatim>\<open>src/sjf_scheduler.c\<close>)\<close>

subsection \<open>Shortest job first\<close>

text \<open>
  \<^verbatim>\<open>schedule_next_lane_sjf\<close> first copies state, queue length and last arrival time of every
  lane into local arrays and then runs the selection loop over the copies. With the lanes
  passed by value the copy is the list itself. The accumulator of the loop is the triple
  \<open>(best_lane, min_estimated_time, earliest_arrival)\<close>; \<open>now\<close> is the value of
  \<^verbatim>\<open>time(NULL)\<close> that initialises \<open>earliest_arrival\<close>.
\<close>

definition sjf_body :: "LaneProcess list \<Rightarrow> int \<times> int \<times> int \<Rightarrow> nat \<Rightarrow> int \<times> int \<times> int" where
  "sjf_body lanes acc i =
     (case acc of (best_lane, min_estimated_time, earliest_arrival) \<Rightarrow>
        if state (lanes ! i) = READY then
          (let estimated_time = queue_length (lanes ! i) * VEHICLE_CROSS_TIME in
           if estimated_time < min_estimated_time then
             (int i, estimated_time, last_arrival_time (lanes ! i))
           else if estimated_time = min_estimated_time then
             (if last_arrival_time (lanes ! i) < earliest_arrival then
                (int i, min_estimated_time, last_arrival_time (lanes ! i))
              else acc)
           else acc)
        else acc)"

definition schedule_next_lane_sjf :: "int \<Rightarrow> LaneProcess list \<Rightarrow> int" where
  "schedule_next_lane_sjf now lanes =
     fst (foldl (sjf_body lanes) (- 1, INT_MAX, now) [0..<4])"

subsection \<open>Shortest remaining time first\<close>

definition srtf_body :: "LaneProcess list \<Rightarrow> int \<times> int \<Rightarrow> nat \<Rightarrow> int \<times> int" where
  "srtf_body lanes acc i =
     (case acc of (best_lane, min_remaining_time) \<Rightarrow>
        if state (lanes ! i) = READY then
          (let remaining_time = queue_length (lanes ! i) * VEHICLE_CROSS_TIME in
           if remaining_time < min_remaining_time then (int i, remaining_time) else acc)
        else acc)"

definition schedule_next_lane_srtf :: "LaneProcess list \<Rightarrow> int" where
  "schedule_next_lane_srtf lanes = fst (foldl (srtf_body lanes) (- 1, INT_MAX) [0..<4])"

subsection \<open>The policies with \<^verbatim>\<open>float\<close> scores\<close>

text \<open>
  The scores of the remaining policies are C \<^verbatim>\<open>float\<close> values. They are written here as
  reals, without the rounding of single precision; \<open>FLT_MAX\<close> is the largest finite
  \<^verbatim>\<open>float\<close>. Which lanes are eligible does not depend on the value of a score.
\<close>

definition FLT_MAX :: real where
  "FLT_MAX = 340282346638528859811704183484516925440"

definition aging_body :: "LaneProcess list \<Rightarrow> int \<times> real \<Rightarrow> nat \<Rightarrow> int \<times> real" where
  "aging_body lanes acc i =
     (case acc of (best_lane, min_priority_score) \<Rightarrow>
        if state (lanes ! i) = READY then
          (let estimated_time = real_of_int (queue_length (lanes ! i) * VEHICLE_CROSS_TIME);
               aging_factor = real_of_int (waiting_time (lanes ! i)) * (1 / 10);
               priority_score = estimated_time - aging_factor in
           if priority_score < min_priority_score then (int i, priority_score) else acc)
        else acc)"

definition schedule_next_lane_sjf_with_aging :: "LaneProcess list \<Rightarrow> int" where
  "schedule_next_lane_sjf_with_aging lanes =
     fst (foldl (aging_body lanes) (- 1, FLT_MAX) [0..<4])"

text \<open>
  The lane mutexes are created by \<^verbatim>\<open>pthread_mutex_init\<close> with default attributes, so they
  are not recursive: \<^verbatim>\<open>pthread_mutex_lock\<close> on a mutex that the calling thread holds does
  not return. The sources say so themselves (\<^verbatim>\<open>context_switch\<close> in \<^verbatim>\<open>main.c\<close>:
  ``\<^verbatim>\<open>update_lane_state\<close> tries to lock again, causing deadlock''). A call that does not
  return has the value \<open>None\<close>.
\<close>

datatype mutex = Unlocked | Locked

definition pthread_mutex_lock :: "mutex \<Rightarrow> mutex option" where
  "pthread_mutex_lock m = (case m of Unlocked \<Rightarrow> Some Locked | Locked \<Rightarrow> None)"

text \<open>
  The two accessors of \<^verbatim>\<open>lane_process.c\<close> that the last two policies call. Both take the
  lane's \<^verbatim>\<open>queue_lock\<close>, whose state at the call is the first argument;
  \<^verbatim>\<open>get_lane_average_wait_time\<close> returns before it locks when the lane has served no
  vehicle.
\<close>

definition get_lane_average_wait_time :: "mutex \<Rightarrow> LaneProcess \<Rightarrow> real option" where
  "get_lane_average_wait_time queue_lock lane =
     (if total_vehicles_served lane = 0 then Some 0
      else
        (case pthread_mutex_lock queue_lock of
           None \<Rightarrow> None
         | Some held \<Rightarrow>
             Some (real_of_int (total_waiting_time lane) / real_of_int (total_vehicles_served lane))))"

definition get_lane_throughput :: "mutex \<Rightarrow> LaneProcess \<Rightarrow> int option" where
  "get_lane_throughput queue_lock lane =
     (case pthread_mutex_lock queue_lock of
        None \<Rightarrow> None
      | Some held \<Rightarrow> Some (total_vehicles_served lane))"

text \<open>
  \<^verbatim>\<open>schedule_next_lane_enhanced_sjf\<close>: the first loop locks each lane in turn (the lock is
  free when the policy is entered), reads state, queue length and waiting time, and calls
  \<^verbatim>\<open>get_lane_average_wait_time\<close> before it unlocks. The second loop selects over the copies.
\<close>

definition enhanced_sjf_read :: "LaneProcess \<Rightarrow> (LaneState \<times> int \<times> int \<times> real) option" where
  "enhanced_sjf_read lane =
     (case pthread_mutex_lock Unlocked of
        None \<Rightarrow> None
      | Some held \<Rightarrow>
          (case get_lane_average_wait_time held lane of
             None \<Rightarrow> None
           | Some avg_wait \<Rightarrow> Some (state lane, queue_length lane, waiting_time lane, avg_wait)))"

definition enhanced_sjf_body ::
  "(LaneState \<times> int \<times> int \<times> real) list \<Rightarrow> int \<times> real \<Rightarrow> nat \<Rightarrow> int \<times> real" where
  "enhanced_sjf_body copies acc i =
     (case acc of (best_lane, min_weighted_score) \<Rightarrow>
        (case copies ! i of (st, qlen, wait, avg_wait) \<Rightarrow>
           if st = READY then
             (let processing_time = real_of_int (qlen * VEHICLE_CROSS_TIME);
                  waiting_bonus = real_of_int wait * (2 / 10);
                  fairness_penalty = avg_wait * (1 / 10);
                  weighted_score = processing_time - waiting_bonus + fairness_penalty in
              if weighted_score < min_weighted_score then (int i, weighted_score) else acc)
           else acc))"

definition schedule_next_lane_enhanced_sjf :: "LaneProcess list \<Rightarrow> int option" where
  "schedule_next_lane_enhanced_sjf lanes =
     (case those (map (\<lambda>i. enhanced_sjf_read (lanes ! i)) [0..<4]) of
        None \<Rightarrow> None
      | Some copies \<Rightarrow> Some (fst (foldl (enhanced_sjf_body copies) (- 1, FLT_MAX) [0..<4])))"

text \<open>
  \<^verbatim>\<open>schedule_next_lane_predictive_sjf\<close> has the same shape; its first loop calls
  \<^verbatim>\<open>get_lane_throughput\<close> while it holds the lane's lock.
\<close>

definition predictive_sjf_read :: "LaneProcess \<Rightarrow> (LaneState \<times> int \<times> int) option" where
  "predictive_sjf_read lane =
     (case pthread_mutex_lock Unlocked of
        None \<Rightarrow> None
      | Some held \<Rightarrow>
          (case get_lane_throughput held lane of
             None \<Rightarrow> None
           | Some throughput \<Rightarrow> Some (state lane, queue_length lane, throughput)))"

definition predictive_sjf_body ::
  "(LaneState \<times> int \<times> int) list \<Rightarrow> int \<times> real \<Rightarrow> nat \<Rightarrow> int \<times> real" where
  "predictive_sjf_body copies acc i =
     (case acc of (best_lane, min_predicted_time) \<Rightarrow>
        (case copies ! i of (st, qlen, throughput) \<Rightarrow>
           if st = READY then
             (let avg_service_time =
                    (if throughput > 0 then 60 / real_of_int throughput
                     else real_of_int VEHICLE_CROSS_TIME);
                  predicted_time = real_of_int qlen * avg_service_time in
              if predicted_time < min_predicted_time then (int i, predicted_time) else acc)
           else acc))"

definition schedule_next_lane_predictive_sjf :: "LaneProcess list \<Rightarrow> int option" where
  "schedule_next_lane_predictive_sjf lanes =
     (case those (map (\<lambda>i. predictive_sjf_read (lanes ! i)) [0..<4]) of
        None \<Rightarrow> None
      | Some copies \<Rightarrow> Some (fst (foldl (predictive_sjf_body copies) (- 1, FLT_MAX) [0..<4])))"

section \<open>The scheduler (\<^verbatim>\<open>src/main.c\<close>, scheduler part)\<close>

text \<open>
  \<^verbatim>\<open>scheduler.h\<close> and \<^verbatim>\<open>performance_metrics.h\<close> are not among the sources; the fields
  below are the ones that \<^verbatim>\<open>main.c\<close> and \<^verbatim>\<open>visualization.c\<close> read and write. The lane
  id of an execution record is named \<open>exec_lane_id\<close> to keep it apart from the lane's own
  field. Pointers that may be \<^verbatim>\<open>NULL\<close> are options.
\<close>

datatype SchedulingAlgorithm = SJF | MULTILEVEL_FEEDBACK | PRIORITY_ROUND_ROBIN

record ExecutionRecord =
  exec_lane_id :: int
  start_time :: int
  end_time :: int
  duration :: int
  vehicles_processed :: int

record Scheduler =
  algorithm :: SchedulingAlgorithm
  ready_queue :: "Queue option"
  time_quantum :: int
  context_switch_time :: int
  current_lane :: int
  execution_history :: "ExecutionRecord list option"
  history_size :: int
  history_index :: int
  total_context_switches :: int
  last_schedule_time :: int
  scheduler_running :: bool

record PerformanceMetrics =
  total_vehicles_processed :: int
  lane_throughput :: "int list"
  lane_wait_times :: "real list"
  context_switches :: int

text \<open>
  \<^verbatim>\<open>init_scheduler\<close>: \<open>buffer\<close> is what \<^verbatim>\<open>malloc\<close> returned for the execution history
  (1000 records of unspecified content, or \<open>None\<close>), \<open>now\<close> is \<^verbatim>\<open>time(NULL)\<close>.
\<close>

definition init_scheduler ::
  "SchedulingAlgorithm \<Rightarrow> int \<Rightarrow> ExecutionRecord list option \<Rightarrow> Scheduler" where
  "init_scheduler alg now buffer =
     \<lparr>algorithm = alg, ready_queue = Some (create_queue 20),
      time_quantum = DEFAULT_TIME_QUANTUM, context_switch_time = CONTEXT_SWITCH_TIME,
      current_lane = - 1, execution_history = buffer,
      history_size = (case buffer of None \<Rightarrow> 0 | Some b \<Rightarrow> 1000), history_index = 0,
      total_context_switches = 0, last_schedule_time = now, scheduler_running = False\<rparr>"

definition start_scheduler :: "Scheduler \<Rightarrow> int \<Rightarrow> Scheduler" where
  "start_scheduler sched now = sched\<lparr>scheduler_running := True, last_schedule_time := now\<rparr>"

definition stop_scheduler :: "Scheduler \<Rightarrow> Scheduler" where
  "stop_scheduler sched = sched\<lparr>scheduler_running := False\<rparr>"

text \<open>
  \<^verbatim>\<open>context_switch\<close>. The two lane pointers point into the lane array, so they are indices
  into the list (\<open>None\<close> for \<^verbatim>\<open>NULL\<close>), and the second update reads the array the first
  one wrote. The scheduler argument is only read, for the length of the simulated delay.
\<close>

definition stop_previous_lane :: "LaneProcess \<Rightarrow> LaneProcess" where
  "stop_previous_lane from_lane =
     (if state from_lane = RUNNING then
        (if queue_length from_lane > 0 then from_lane\<lparr>state := READY\<rparr>
         else from_lane\<lparr>state := WAITING\<rparr>)
      else from_lane)"

definition start_new_lane :: "LaneProcess \<Rightarrow> LaneProcess" where
  "start_new_lane to_lane =
     (if state to_lane = READY then to_lane\<lparr>state := RUNNING, waiting_time := 0\<rparr>
      else to_lane)"

definition context_switch :: "LaneProcess list \<Rightarrow> nat option \<Rightarrow> nat option \<Rightarrow> LaneProcess list" where
  "context_switch lanes from_lane to_lane =
     (let lanes1 = (case from_lane of
                      None \<Rightarrow> lanes
                    | Some f \<Rightarrow> lanes[f := stop_previous_lane (lanes ! f)]);
          lanes2 = (case to_lane of
                      None \<Rightarrow> lanes1
                    | Some t \<Rightarrow> lanes1[t := start_new_lane (lanes1 ! t)])
      in lanes2)"

text \<open>
  Modelled from the spec: \<^verbatim>\<open>update_context_switch_count\<close> (\<^verbatim>\<open>performance_metrics.c\<close>) is
  not among the sources. It receives the metrics only; the specification has the switch
  counter incremented at every context switch, and \<^verbatim>\<open>visualization.c\<close> displays the field
  \<^verbatim>\<open>context_switches\<close> of the metrics.
\<close>

definition update_context_switch_count :: "PerformanceMetrics \<Rightarrow> PerformanceMetrics" where
  "update_context_switch_count metrics = metrics\<lparr>context_switches := context_switches metrics + 1\<rparr>"

text \<open>
  \<^verbatim>\<open>schedule_next_lane\<close>. The policies \<^verbatim>\<open>schedule_next_lane_multilevel\<close> and
  \<^verbatim>\<open>schedule_next_lane_priority_rr\<close> are not among the sources and are parameters.
  \<open>global_lock_free\<close> is the outcome of \<^verbatim>\<open>pthread_mutex_trylock\<close> on the global state
  lock; \<open>now\<close> and \<open>now'\<close> are the two readings of \<^verbatim>\<open>time(NULL)\<close>. The result of
  \<^verbatim>\<open>validate_single_lane_running\<close> is computed and dropped by the source, so it has no
  part in the result. The array accesses \<^verbatim>\<open>lanes[current_lane]\<close> and
  \<^verbatim>\<open>lanes[next_lane]\<close> are defined in C only for indices 0..3.
\<close>

type_synonym policy = "Scheduler \<Rightarrow> LaneProcess list \<Rightarrow> int"

definition schedule_next_lane ::
  "policy \<Rightarrow> policy \<Rightarrow> bool \<Rightarrow> int \<Rightarrow> int \<Rightarrow> Scheduler \<Rightarrow> LaneProcess list \<Rightarrow> PerformanceMetrics
     \<Rightarrow> int \<times> Scheduler \<times> LaneProcess list \<times> PerformanceMetrics" where
  "schedule_next_lane schedule_next_lane_multilevel schedule_next_lane_priority_rr
       global_lock_free now now' scheduler lanes metrics =
     (let next_lane =
            (case algorithm scheduler of
               SJF \<Rightarrow> schedule_next_lane_sjf now lanes
             | MULTILEVEL_FEEDBACK \<Rightarrow> schedule_next_lane_multilevel scheduler lanes
             | PRIORITY_ROUND_ROBIN \<Rightarrow> schedule_next_lane_priority_rr scheduler lanes) in
      if next_lane \<noteq> current_lane scheduler \<and> next_lane \<noteq> - 1 then
        (let lanes' = context_switch lanes
                        (if current_lane scheduler \<ge> 0 then Some (nat (current_lane scheduler))
                         else None)
                        (Some (nat next_lane));
             metrics' = (if global_lock_free then update_context_switch_count metrics
                         else metrics) in
         (next_lane, scheduler\<lparr>current_lane := next_lane, last_schedule_time := now'\<rparr>,
          lanes', metrics'))
      else (next_lane, scheduler\<lparr>last_schedule_time := now'\<rparr>, lanes, metrics))"

text \<open>
  \<^verbatim>\<open>validate_single_lane_running\<close> counts the running lanes among those whose lock it
  could take; \<open>acquired ! i\<close> is the outcome of the \<^verbatim>\<open>trylock\<close> on lane \<open>i\<close>.
\<close>

definition validate_single_lane_running :: "bool list \<Rightarrow> LaneProcess list \<Rightarrow> bool" where
  "validate_single_lane_running acquired lanes =
     (let running_count =
            foldl (\<lambda>c i. if acquired ! i \<and> state (lanes ! i) = RUNNING then c + 1 else c)
              (0 :: int) [0..<4] in
      \<not> running_count > 1)"

text \<open>
  \<^verbatim>\<open>calculate_context_switch_overhead\<close>, the reader of \<^verbatim>\<open>total_context_switches\<close>.
\<close>

definition calculate_context_switch_overhead :: "bool \<Rightarrow> Scheduler \<Rightarrow> int" where
  "calculate_context_switch_overhead lock_free scheduler =
     (if lock_free
      then int_cast (total_context_switches scheduler * context_switch_time scheduler)
      else 0)"

text \<open>
  \<^verbatim>\<open>record_execution\<close> writes one slot of the ring buffer when it gets the scheduler lock.
\<close>

definition record_execution ::
  "bool \<Rightarrow> Scheduler \<Rightarrow> int \<Rightarrow> int \<Rightarrow> int \<Rightarrow> int \<Rightarrow> Scheduler" where
  "record_execution lock_free scheduler lane t_start t_end processed =
     (case execution_history scheduler of
        None \<Rightarrow> scheduler
      | Some history \<Rightarrow>
          if lock_free then
            scheduler\<lparr>execution_history :=
                        Some (history[nat (history_index scheduler) :=
                                \<lparr>exec_lane_id = lane, start_time = t_start, end_time = t_end,
                                 duration = int_cast (t_end - t_start), vehicles_processed = processed\<rparr>]),
                      history_index := (history_index scheduler + 1) mod history_size scheduler\<rparr>
          else scheduler)"

text \<open>
  \<^verbatim>\<open>execute_lane_time_slice\<close>: one call of \<^verbatim>\<open>remove_vehicle_from_lane_unlocked\<close>, the
  metrics of a processed vehicle, the execution record, and the demotion of a running lane
  whose cached length is zero. \<open>t_start\<close>, \<open>t_now\<close> and \<open>t_end\<close> are the three readings of
  \<^verbatim>\<open>time(NULL)\<close>; the time quantum argument is unused by the source.
\<close>

definition execute_lane_time_slice ::
  "bool \<Rightarrow> int \<Rightarrow> int \<Rightarrow> int \<Rightarrow> Scheduler \<Rightarrow> LaneProcess \<Rightarrow> PerformanceMetrics
     \<Rightarrow> Scheduler \<times> LaneProcess \<times> PerformanceMetrics" where
  "execute_lane_time_slice scheduler_lock_free t_start t_now t_end scheduler lane metrics =
     (case remove_vehicle_from_lane_unlocked lane of
        (vehicle_id, lane1) \<Rightarrow>
          (let processed = (if vehicle_id \<noteq> - 1 then 1 else 0);
               wait_time_sec = max 0 (int_cast (t_now - last_arrival_time lane1));
               k = nat (lane_id lane1);
               metrics' =
                 (if vehicle_id \<noteq> - 1 then
                    metrics\<lparr>total_vehicles_processed := total_vehicles_processed metrics + 1,
                            lane_throughput :=
                              (lane_throughput metrics)[k := lane_throughput metrics ! k + 1],
                            lane_wait_times :=
                              (lane_wait_times metrics)
                                [k := lane_wait_times metrics ! k + real_of_int wait_time_sec]\<rparr>
                  else metrics);
               scheduler' = record_execution scheduler_lock_free scheduler (lane_id lane1)
                              t_start t_end processed;
               lane2 = (if queue_length lane1 = 0 \<and> state lane1 = RUNNING
                        then lane1\<lparr>state := WAITING\<rparr> else lane1) in
           (scheduler', lane2, metrics')))"

text \<open>
  \<^verbatim>\<open>set_scheduling_algorithm\<close> does nothing when the scheduler lock is busy. Otherwise it
  stores the algorithm and clears \<^verbatim>\<open>current_lane\<close>; when the simulation is running it also
  stops every running lane and empties the ready queue.
\<close>

function clear_ready_queue :: "Queue \<Rightarrow> Queue" where
  "clear_ready_queue q = (if is_empty q then q else clear_ready_queue (snd (dequeue q)))"
  by pat_completeness auto
termination
  by (relation "measure (\<lambda>q. length (items q))")
     (auto simp: is_empty_def dequeue_def split: list.splits)

definition stop_running_lane :: "LaneProcess \<Rightarrow> LaneProcess" where
  "stop_running_lane lane =
     (if state lane = RUNNING
      then lane\<lparr>state := (if queue_length lane > 0 then READY else WAITING)\<rparr>
      else lane)"

definition set_scheduling_algorithm ::
  "bool \<Rightarrow> bool \<Rightarrow> SchedulingAlgorithm \<Rightarrow> Scheduler \<Rightarrow> LaneProcess list
     \<Rightarrow> Scheduler \<times> LaneProcess list" where
  "set_scheduling_algorithm lock_free sim_running alg scheduler lanes =
     (if lock_free then
        (let scheduler1 = scheduler\<lparr>algorithm := alg, current_lane := - 1\<rparr> in
         if sim_running then
           (scheduler1\<lparr>ready_queue := map_option clear_ready_queue (ready_queue scheduler1)\<rparr>,
            map stop_running_lane lanes)
         else (scheduler1, lanes))
      else (scheduler, lanes))"

section \<open>The system (\<^verbatim>\<open>src/main.c\<close>, \<^verbatim>\<open>src/visualization.c\<close>)\<close>

text \<open>
  The global \<^verbatim>\<open>TrafficGuruSystem\<close> of \<^verbatim>\<open>include/trafficguru.h\<close>, with the fields that the
  functions below touch. The type of the emergency system is declared in a header that is
  not among the sources and is a type parameter. The record also holds the global flag
  \<^verbatim>\<open>keep_running\<close> of \<^verbatim>\<open>main.c\<close> and the two static flags \<^verbatim>\<open>show_help\<close> and
  \<^verbatim>\<open>pause_requested\<close> of \<^verbatim>\<open>visualization.c\<close>.
\<close>

record 'e TrafficGuruSystem =
  lanes :: "LaneProcess list"
  scheduler :: Scheduler
  metrics :: PerformanceMetrics
  emergency_system :: 'e
  simulation_running :: bool
  simulation_paused :: bool
  total_vehicles_generated :: int
  keep_running :: bool
  show_help :: bool
  pause_requested :: bool

text \<open>
  \<^verbatim>\<open>init_traffic_guru_system\<close>, for the parts modelled: four lanes of capacity
  \<^verbatim>\<open>MAX_QUEUE_CAPACITY\<close>, the scheduler with policy SJF, and the flags.
  \<^verbatim>\<open>init_performance_metrics\<close> and \<^verbatim>\<open>init_emergency_system\<close> are not among the sources;
  what they leave behind are the arguments \<open>m0\<close> and \<open>e0\<close>.
\<close>

definition init_traffic_guru_system ::
  "int \<Rightarrow> ExecutionRecord list option \<Rightarrow> PerformanceMetrics \<Rightarrow> 'e \<Rightarrow> 'e TrafficGuruSystem" where
  "init_traffic_guru_system now buffer m0 e0 =
     \<lparr>lanes = map (\<lambda>i. init_lane_process zeroed_lane (int i) (int MAX_QUEUE_CAPACITY) now)
                [0..<NUM_LANES],
      scheduler = init_scheduler SJF now buffer,
      metrics = m0,
      emergency_system = e0,
      simulation_running = False,
      simulation_paused = False,
      total_vehicles_generated = 0,
      keep_running = True,
      show_help = False,
      pause_requested = False\<rparr>"

definition switch_algorithm ::
  "bool \<Rightarrow> SchedulingAlgorithm \<Rightarrow> 'e TrafficGuruSystem \<Rightarrow> 'e TrafficGuruSystem" where
  "switch_algorithm lock_free alg s =
     (case set_scheduling_algorithm lock_free (simulation_running s) alg (scheduler s) (lanes s) of
        (sched, ls) \<Rightarrow> s\<lparr>scheduler := sched, lanes := ls\<rparr>)"

definition start_traffic_simulation :: "int \<Rightarrow> 'e TrafficGuruSystem \<Rightarrow> 'e TrafficGuruSystem" where
  "start_traffic_simulation now s =
     (if simulation_running s then s
      else s\<lparr>simulation_running := True, simulation_paused := False,
             scheduler := start_scheduler (scheduler s) now\<rparr>)"

definition stop_traffic_simulation :: "'e TrafficGuruSystem \<Rightarrow> 'e TrafficGuruSystem" where
  "stop_traffic_simulation s =
     (if \<not> simulation_running s then s
      else s\<lparr>simulation_running := False, scheduler := stop_scheduler (scheduler s)\<rparr>)"

definition handle_signal_interrupt :: "'e TrafficGuruSystem \<Rightarrow> 'e TrafficGuruSystem" where
  "handle_signal_interrupt s = s\<lparr>keep_running := False, simulation_running := False\<rparr>"

text \<open>
  One iteration of \<^verbatim>\<open>vehicle_generator_loop\<close> while the simulation is not paused: the new
  vehicle gets the running count as its id and is added to the lane \<open>lane_idx\<close>, then a
  lane that is still \<open>WAITING\<close> is woken. Between the two, the loop may hand an emergency
  vehicle to \<^verbatim>\<open>add_emergency_vehicle\<close>, which is not among the sources: \<open>e'\<close> is the
  emergency system afterwards.
\<close>

definition vehicle_generator_iteration ::
  "nat \<Rightarrow> int \<Rightarrow> 'e \<Rightarrow> 'e TrafficGuruSystem \<Rightarrow> 'e TrafficGuruSystem" where
  "vehicle_generator_iteration lane_idx now e' s =
     (let new_vehicle_id = total_vehicles_generated s;
          lane = add_vehicle_to_lane (lanes s ! lane_idx) new_vehicle_id now;
          woken = (if state lane = WAITING then lane\<lparr>state := READY, waiting_time := 0\<rparr>
                   else lane) in
      s\<lparr>total_vehicles_generated := new_vehicle_id + 1,
        lanes := (lanes s)[lane_idx := woken],
        emergency_system := e'\<rparr>)"

text \<open>
  \<^verbatim>\<open>process_traffic_events\<close>: the scheduling decision, then a time slice for the lane it
  returned.
\<close>

definition schedule_step ::
  "policy \<Rightarrow> policy \<Rightarrow> bool \<Rightarrow> int \<Rightarrow> int \<Rightarrow> 'e TrafficGuruSystem \<Rightarrow> int \<times> 'e TrafficGuruSystem" where
  "schedule_step multilevel priority_rr global_lock_free now now' s =
     (case schedule_next_lane multilevel priority_rr global_lock_free now now'
             (scheduler s) (lanes s) (metrics s) of
        (next_lane, sched, ls, m) \<Rightarrow> (next_lane, s\<lparr>scheduler := sched, lanes := ls, metrics := m\<rparr>))"

definition time_slice_step ::
  "bool \<Rightarrow> int \<Rightarrow> int \<Rightarrow> int \<Rightarrow> nat \<Rightarrow> 'e TrafficGuruSystem \<Rightarrow> 'e TrafficGuruSystem" where
  "time_slice_step scheduler_lock_free t_start t_now t_end i s =
     (case execute_lane_time_slice scheduler_lock_free t_start t_now t_end
             (scheduler s) (lanes s ! i) (metrics s) of
        (sched, lane, m) \<Rightarrow> s\<lparr>scheduler := sched, lanes := (lanes s)[i := lane], metrics := m\<rparr>)"

definition process_traffic_events ::
  "policy \<Rightarrow> policy \<Rightarrow> bool \<Rightarrow> int \<Rightarrow> int \<Rightarrow> bool \<Rightarrow> int \<Rightarrow> int \<Rightarrow> int
     \<Rightarrow> 'e TrafficGuruSystem \<Rightarrow> 'e TrafficGuruSystem" where
  "process_traffic_events multilevel priority_rr global_lock_free now now'
       scheduler_lock_free t_start t_now t_end s =
     (case schedule_step multilevel priority_rr global_lock_free now now' s of
        (next_lane, s1) \<Rightarrow>
          if next_lane \<noteq> - 1
          then time_slice_step scheduler_lock_free t_start t_now t_end (nat next_lane) s1
          else s1)"

text \<open>
  \<^verbatim>\<open>handle_user_input\<close>: \<open>ch\<close> is the key that \<^verbatim>\<open>wgetch\<close> returned (\<open>ERR\<close> when there is
  none), \<open>lock_free\<close> the outcome of the \<^verbatim>\<open>trylock\<close> inside \<^verbatim>\<open>set_scheduling_algorithm\<close>.
  The result is the return value and the system afterwards.
\<close>

definition ERR :: int where
  "ERR = - 1"

definition key :: "char \<Rightarrow> int" where
  "key c = of_char c"

definition handle_user_input ::
  "int \<Rightarrow> bool \<Rightarrow> 'e TrafficGuruSystem \<Rightarrow> int \<times> 'e TrafficGuruSystem" where
  "handle_user_input ch lock_free s =
     (if show_help s then
        (if ch \<noteq> ERR then
           (0, if pause_requested s
               then s\<lparr>show_help := False, simulation_paused := True, pause_requested := False\<rparr>
               else s\<lparr>show_help := False, simulation_paused := False\<rparr>)
         else (0, s))
      else if ch = key CHR ''q'' \<or> ch = key CHR ''Q'' then (ch, s\<lparr>keep_running := False\<rparr>)
      else if ch = key CHR '' '' then (ch, s\<lparr>simulation_paused := \<not> simulation_paused s\<rparr>)
      else if ch = key CHR ''1'' then (ch, switch_algorithm lock_free SJF s)
      else if ch = key CHR ''2'' then (ch, switch_algorithm lock_free MULTILEVEL_FEEDBACK s)
      else if ch = key CHR ''3'' then (ch, switch_algorithm lock_free PRIORITY_ROUND_ROBIN s)
      else if ch = key CHR ''e'' \<or> ch = key CHR ''E'' then (ch, s)
      else if ch = key CHR ''h'' \<or> ch = key CHR ''H'' then
        (ch, if simulation_paused s
             then s\<lparr>show_help := True, pause_requested := True\<rparr>
             else s\<lparr>show_help := True, simulation_paused := True, pause_requested := False\<rparr>)
      else (0, s))"

section \<open>The running program\<close>

text \<open>
  The absent policies are functions of the scheduler and the lanes that return \<open>-1\<close> or a
  lane index, as the specification requires of every policy.
\<close>

definition policy_in_range :: "policy \<Rightarrow> bool" where
  "policy_in_range p = (\<forall>sched ls. p sched ls = - 1 \<or> (0 \<le> p sched ls \<and> p sched ls < 4))"

definition set_time_quantum :: "int \<Rightarrow> 'e TrafficGuruSystem \<Rightarrow> 'e TrafficGuruSystem" where
  "set_time_quantum seconds s =
     (if seconds > 0 then s\<lparr>scheduler := (scheduler s)\<lparr>time_quantum := seconds\<rparr>\<rparr> else s)"

text \<open>
  Once \<^verbatim>\<open>start_traffic_simulation\<close> has created its threads, three threads work on the
  system: \<^verbatim>\<open>simulation_main_loop\<close>, \<^verbatim>\<open>vehicle_generator_loop\<close> and the input loop of
  \<^verbatim>\<open>main\<close>. \<^verbatim>\<open>lane_process_thread\<close> is not among them: no function among the sources
  starts it. Each loop reads the flags \<^verbatim>\<open>simulation_running\<close> and \<^verbatim>\<open>keep_running\<close> in its
  loop condition only. A thread that has passed its loop condition runs the loop body to
  its end, whatever happens to the flags in the meantime, and the signal handler may clear
  them at any moment. The state of the program is therefore the system together with the
  place at which each thread stands, and the static counter of \<^verbatim>\<open>update_simulation_state\<close>.
\<close>

datatype simulation_position =
    Simulation_head | Simulation_update | Simulation_schedule | Simulation_time_slice nat

datatype generator_position = Generator_head | Generator_body

datatype input_position = Input_head | Input_body | Input_stop | Input_done

record 'e Program =
  system :: "'e TrafficGuruSystem"
  simulation_at :: simulation_position
  generator_at :: generator_position
  input_at :: input_position
  deadlock_check_counter :: int

text \<open>
  The program as \<^verbatim>\<open>main\<close> starts it: the system is initialised, the time quantum and the
  algorithm of the command line are applied, the simulation is started, and every thread
  stands at the head of its loop.
\<close>

definition start_program ::
  "int \<Rightarrow> ExecutionRecord list option \<Rightarrow> PerformanceMetrics \<Rightarrow> 'e \<Rightarrow> int \<Rightarrow> bool
     \<Rightarrow> SchedulingAlgorithm \<Rightarrow> int \<Rightarrow> 'e Program" where
  "start_program now buffer m0 e0 seconds lock_free alg now' =
     \<lparr>system = start_traffic_simulation now'
                 (switch_algorithm lock_free alg
                    (set_time_quantum seconds (init_traffic_guru_system now buffer m0 e0))),
      simulation_at = Simulation_head,
      generator_at = Generator_head,
      input_at = Input_head,
      deadlock_check_counter = 0\<rparr>"

text \<open>
  Modelled from the spec: \<^verbatim>\<open>detect_and_resolve_advanced_deadlock\<close> is not among the
  sources. The specification has the deadlock resolver release the resources of a victim
  and move it to \<open>WAITING\<close>, and makes the scheduler the sole authority over transitions
  to \<open>RUNNING\<close>: the lanes \<open>ls'\<close> that the resolver leaves are any lanes in which no lane
  is \<open>RUNNING\<close> that was not before.
\<close>

definition starts_no_lane :: "LaneProcess list \<Rightarrow> LaneProcess list \<Rightarrow> bool" where
  "starts_no_lane ls ls' = list_all2 (\<lambda>l l'. state l' = RUNNING \<longrightarrow> state l = RUNNING) ls ls'"

text \<open>
  \<^verbatim>\<open>update_simulation_state\<close> calls \<^verbatim>\<open>update_time_based_metrics\<close> on the metrics and
  \<^verbatim>\<open>update_emergency_progress\<close> on the emergency system, neither of which is among the
  sources: the metrics and the emergency system afterwards are the arguments \<open>m'\<close> and
  \<open>e'\<close>. It then counts its calls and, on every hundredth, calls the deadlock resolver on
  the lanes, which are \<open>ls'\<close> afterwards; the result is \<open>None\<close> for lanes that the
  resolver is taken not to leave. The other ninety-nine calls do not touch the lanes.
\<close>

definition update_simulation_state ::
  "PerformanceMetrics \<Rightarrow> 'e \<Rightarrow> LaneProcess list \<Rightarrow> 'e Program \<Rightarrow> 'e Program option" where
  "update_simulation_state m' e' ls' p =
     (let s1 = (system p)\<lparr>metrics := m', emergency_system := e'\<rparr>;
          counter = deadlock_check_counter p + 1 in
      if counter \<ge> 100 then
        (if starts_no_lane (lanes s1) ls'
         then Some (p\<lparr>system := s1\<lparr>lanes := ls'\<rparr>, deadlock_check_counter := 0\<rparr>)
         else None)
      else Some (p\<lparr>system := s1, deadlock_check_counter := counter\<rparr>))"

text \<open>
  What can happen next. An event is a loop condition that is read, a call of one function
  of the sources, taken as one step, or a signal. It carries what the program reads from
  outside when it happens: the readings of the clock, the outcomes of the \<^verbatim>\<open>trylock\<close>
  calls, the key, the lane that the generator drew, and what the absent functions leave
  behind.

  \<^item> \<open>Signal\<close>: \<^verbatim>\<open>SIGINT\<close> or \<^verbatim>\<open>SIGTERM\<close> is delivered; it has no condition.
  \<^item> \<open>Simulation_enter\<close>: the simulation loop passes its loop condition and finds the
    simulation not paused. \<open>Update_state\<close>, \<open>Schedule\<close> and \<open>Time_slice\<close> are the loop
    body: \<^verbatim>\<open>update_simulation_state\<close>, then the two calls of \<^verbatim>\<open>process_traffic_events\<close>,
    the second one only when a lane was returned.
  \<^item> \<open>Generator_enter\<close> and \<open>Arrival\<close>: the same for the vehicle generator.
  \<^item> \<open>Input_enter\<close> and \<open>Key\<close>: the input loop of \<^verbatim>\<open>main\<close> passes its loop condition and
    calls \<^verbatim>\<open>handle_user_input\<close>; the last argument of \<open>Key\<close> tells whether the simulation
    duration has elapsed afterwards, which ends the loop. \<open>Input_leave\<close> is the loop
    condition found false, and \<open>Stop\<close> the call of \<^verbatim>\<open>stop_traffic_simulation\<close> after the
    loop.

  A paused loop only sleeps and has no event. The result is \<open>None\<close> when the event cannot
  happen in the state.
\<close>

datatype 'e event =
    Signal
  | Simulation_enter
  | Update_state PerformanceMetrics 'e "LaneProcess list"
  | Schedule bool int int
  | Time_slice bool int int int
  | Generator_enter
  | Arrival nat int 'e
  | Input_enter
  | Input_leave
  | Key int bool bool
  | Stop

definition loop_condition :: "'e TrafficGuruSystem \<Rightarrow> bool" where
  "loop_condition s = (simulation_running s \<and> keep_running s)"

definition fire :: "policy \<Rightarrow> policy \<Rightarrow> 'e event \<Rightarrow> 'e Program \<Rightarrow> 'e Program option" where
  "fire multilevel priority_rr ev p =
     (case ev of
        Signal \<Rightarrow> Some (p\<lparr>system := handle_signal_interrupt (system p)\<rparr>)
      | Simulation_enter \<Rightarrow>
          if simulation_at p = Simulation_head \<and> loop_condition (system p) \<and>
             \<not> simulation_paused (system p)
          then Some (p\<lparr>simulation_at := Simulation_update\<rparr>) else None
      | Update_state m' e' ls' \<Rightarrow>
          if simulation_at p = Simulation_update
          then map_option (\<lambda>p'. p'\<lparr>simulation_at := Simulation_schedule\<rparr>)
                 (update_simulation_state m' e' ls' p)
          else None
      | Schedule global_lock_free now now' \<Rightarrow>
          if simulation_at p = Simulation_schedule then
            (case schedule_step multilevel priority_rr global_lock_free now now' (system p) of
               (next_lane, s') \<Rightarrow>
                 Some (p\<lparr>system := s',
                         simulation_at := (if next_lane \<noteq> - 1
                                           then Simulation_time_slice (nat next_lane)
                                           else Simulation_head)\<rparr>))
          else None
      | Time_slice scheduler_lock_free t_start t_now t_end \<Rightarrow>
          (case simulation_at p of
             Simulation_time_slice i \<Rightarrow>
               Some (p\<lparr>system := time_slice_step scheduler_lock_free t_start t_now t_end i
                                   (system p),
                       simulation_at := Simulation_head\<rparr>)
           | _ \<Rightarrow> None)
      | Generator_enter \<Rightarrow>
          if generator_at p = Generator_head \<and> loop_condition (system p) \<and>
             \<not> simulation_paused (system p)
          then Some (p\<lparr>generator_at := Generator_body\<rparr>) else None
      | Arrival lane_idx now e' \<Rightarrow>
          if generator_at p = Generator_body \<and> lane_idx < NUM_LANES
          then Some (p\<lparr>system := vehicle_generator_iteration lane_idx now e' (system p),
                       generator_at := Generator_head\<rparr>)
          else None
      | Input_enter \<Rightarrow>
          if input_at p = Input_head \<and> loop_condition (system p)
          then Some (p\<lparr>input_at := Input_body\<rparr>) else None
      | Input_leave \<Rightarrow>
          if input_at p = Input_head \<and> \<not> loop_condition (system p)
          then Some (p\<lparr>input_at := Input_stop\<rparr>) else None
      | Key ch lock_free elapsed \<Rightarrow>
          if input_at p = Input_body
          then Some (p\<lparr>system := snd (handle_user_input ch lock_free (system p)),
                       input_at := (if elapsed then Input_stop else Input_head)\<rparr>)
          else None
      | Stop \<Rightarrow>
          if input_at p = Input_stop
          then Some (p\<lparr>system := stop_traffic_simulation (system p), input_at := Input_done\<rparr>)
          else None)"

text \<open>A run of the program: the events happen one after the other.\<close>

fun run_events :: "policy \<Rightarrow> policy \<Rightarrow> 'e event list \<Rightarrow> 'e Program \<Rightarrow> 'e Program option" where
  "run_events multilevel priority_rr [] p = Some p"
| "run_events multilevel priority_rr (ev # evs) p =
     (case fire multilevel priority_rr ev p of
        None \<Rightarrow> None
      | Some p' \<Rightarrow> run_events multilevel priority_rr evs p')"

text \<open>The states the program reaches: those at the end of a run from a start of \<^verbatim>\<open>main\<close>.\<close>

definition reachable :: "policy \<Rightarrow> policy \<Rightarrow> 'e Program \<Rightarrow> bool" where
  "reachable multilevel priority_rr p =
     (\<exists>now buffer m0 e0 seconds lock_free alg now' evs.
        run_events multilevel priority_rr evs
          (start_program now buffer m0 e0 seconds lock_free alg now') = Some p)"

text \<open>
  At most one lane is \<open>RUNNING\<close>: two lane indices whose lanes are both \<open>RUNNING\<close> are
  the same index.
\<close>

definition single_lane_running :: "LaneProcess list \<Rightarrow> bool" where
  "single_lane_running ls =
     (\<forall>i<4. \<forall>j<4. state (ls ! i) = RUNNING \<and> state (ls ! j) = RUNNING \<longrightarrow> i = j)"

text \<open>The cost that the SJF policy assigns to a lane.\<close>

definition sjf_cost :: "LaneProcess \<Rightarrow> int" where
  "sjf_cost l = queue_length l * VEHICLE_CROSS_TIME"

section \<open>Invariants\<close>

text \<open>
  The invariant of the SJF selection loop after the lanes in \<open>S\<close> have been visited:
  either nothing was selected and no visited lane is \<open>READY\<close>, or the selected lane is a
  visited \<open>READY\<close> lane whose cost and arrival time are the ones recorded, and no visited
  \<open>READY\<close> lane is cheaper, or as cheap and earlier.
\<close>

definition sjf_inv :: "LaneProcess list \<Rightarrow> nat set \<Rightarrow> int \<times> int \<times> int \<Rightarrow> bool" where
  "sjf_inv ls S acc =
     (case acc of (b, m, e) \<Rightarrow>
        (b = - 1 \<and> m = INT_MAX \<and> (\<forall>j\<in>S. state (ls ! j) \<noteq> READY)) \<or>
        (\<exists>k\<in>S. b = int k \<and> state (ls ! k) = READY \<and> m = sjf_cost (ls ! k) \<and>
               e = last_arrival_time (ls ! k) \<and>
               (\<forall>j\<in>S. state (ls ! j) = READY \<longrightarrow>
                   sjf_cost (ls ! k) < sjf_cost (ls ! j) \<or>
                   (sjf_cost (ls ! k) = sjf_cost (ls ! j) \<and>
                    last_arrival_time (ls ! k) \<le> last_arrival_time (ls ! j)))))"

text \<open>
  The invariant of the system: there are four lanes, \<^verbatim>\<open>current_lane\<close> is \<open>-1\<close> or a lane
  index, and as long as \<^verbatim>\<open>simulation_running\<close> is set a \<open>RUNNING\<close> lane is the current
  lane.
\<close>

definition system_invariant :: "'e TrafficGuruSystem \<Rightarrow> bool" where
  "system_invariant s =
     (length (lanes s) = 4 \<and>
      - 1 \<le> current_lane (scheduler s) \<and> current_lane (scheduler s) < 4 \<and>
      (simulation_running s \<longrightarrow>
         (\<forall>i<4. state (lanes s ! i) = RUNNING \<longrightarrow> current_lane (scheduler s) = int i)))"

section \<open>Example states\<close>

text \<open>
  A lane as \<^verbatim>\<open>init_lane_process\<close> leaves it, then given a state, queued vehicles (with the
  cached length that goes with them) and a last arrival time.
\<close>

definition example_lane :: "int \<Rightarrow> LaneState \<Rightarrow> int list \<Rightarrow> int \<Rightarrow> LaneProcess" where
  "example_lane n st vehicles arrival =
     (init_lane_process zeroed_lane n (int MAX_QUEUE_CAPACITY) 0)
       \<lparr>queue := Some \<lparr>items = vehicles, capacity = MAX_QUEUE_CAPACITY\<rparr>,
        queue_length := int (length vehicles), state := st, last_arrival_time := arrival\<rparr>"

text \<open>Three \<open>READY\<close> lanes with 3, 1 and 2 vehicles, and a \<open>WAITING\<close> lane.\<close>

definition sjf_example :: "LaneProcess list" where
  "sjf_example =
     [example_lane 0 READY [1, 2, 3] 10, example_lane 1 READY [4] 30,
      example_lane 2 READY [5, 6] 20, example_lane 3 WAITING [] 0]"

text \<open>Two \<open>READY\<close> lanes with two vehicles each; the later lane has the earlier arrival.\<close>

definition tie_example :: "LaneProcess list" where
  "tie_example =
     [example_lane 0 READY [1, 2] 50, example_lane 1 WAITING [] 0,
      example_lane 2 READY [3, 4] 40, example_lane 3 WAITING [] 0]"

definition empty_metrics :: PerformanceMetrics where
  "empty_metrics =
     \<lparr>total_vehicles_processed = 0, lane_throughput = [0, 0, 0, 0],
      lane_wait_times = [0, 0, 0, 0], context_switches = 0\<rparr>"

text \<open>Two stand-ins for the absent policies: one selects nothing, one always lane 2.\<close>

definition no_policy :: policy where
  "no_policy sched ls = - 1"

definition third_lane_policy :: policy where
  "third_lane_policy sched ls = 2"

text \<open>
  Lane 0 is running with two vehicles left, lane 1 is ready with one vehicle and has waited
  7 ticks, lanes 2 and 3 are waiting; lane 0 is the current lane.
\<close>

definition switch_scheduler :: Scheduler where
  "switch_scheduler = (init_scheduler SJF 0 None)\<lparr>current_lane := 0\<rparr>"

definition switch_lanes :: "LaneProcess list" where
  "switch_lanes =
     [example_lane 0 RUNNING [1, 2] 10, (example_lane 1 READY [3] 20)\<lparr>waiting_time := 7\<rparr>,
      (example_lane 2 WAITING [] 0)\<lparr>waiting_time := 5\<rparr>, example_lane 3 WAITING [] 0]"

definition switch_result :: "int \<times> Scheduler \<times> LaneProcess list \<times> PerformanceMetrics" where
  "switch_result =
     schedule_next_lane no_policy no_policy True 100 101 switch_scheduler switch_lanes empty_metrics"

text \<open>The same lanes under the multilevel policy, which here selects the waiting lane 2.\<close>

definition stale_result :: "int \<times> Scheduler \<times> LaneProcess list \<times> PerformanceMetrics" where
  "stale_result =
     schedule_next_lane third_lane_policy no_policy True 100 101
       (switch_scheduler\<lparr>algorithm := MULTILEVEL_FEEDBACK\<rparr>) switch_lanes empty_metrics"

text \<open>The first scheduling decision of a fresh scheduler over \<open>sjf_example\<close>.\<close>

definition first_switch :: "int \<times> Scheduler \<times> LaneProcess list \<times> PerformanceMetrics" where
  "first_switch =
     schedule_next_lane no_policy no_policy True 100 101 (init_scheduler SJF 0 None)
       sjf_example empty_metrics"

text \<open>
  The system and the program as \<^verbatim>\<open>main\<close> starts them, at time 0 with the metrics empty,
  a time quantum of 3 and the SJF policy.
\<close>

definition started_example :: "unit TrafficGuruSystem" where
  "started_example =
     start_traffic_simulation 2
       (switch_algorithm True SJF
          (set_time_quantum 3 (init_traffic_guru_system 0 None empty_metrics ())))"

definition started_program :: "unit Program" where
  "started_program = start_program 0 None empty_metrics () 3 True SJF 2"

text \<open>
  A run in which nothing interferes, and the state \<open>quiet_state\<close> it ends in: two
  vehicles arrive at lane 1, the simulation loop schedules lane 1 and gives it a time
  slice, and a vehicle arrives at lane 0. Lane 1 is then running with one vehicle left and
  lane 0 is ready. The lanes that \<open>Update_state\<close> carries are used by its hundredth
  occurrence only.
\<close>

definition quiet_state :: "unit Program" where
  "quiet_state =
     \<lparr>system =
        \<lparr>lanes = [example_lane 0 READY [2] 10, example_lane 1 RUNNING [1] 4,
                  example_lane 2 WAITING [] 0, example_lane 3 WAITING [] 0],
         scheduler = (init_scheduler SJF 0 None)
                       \<lparr>time_quantum := 3, current_lane := 1, last_schedule_time := 6,
                        scheduler_running := True\<rparr>,
         metrics = \<lparr>total_vehicles_processed = 1, lane_throughput = [0, 1, 0, 0],
                     lane_wait_times = [0, 4, 0, 0], context_switches = 1\<rparr>,
         emergency_system = (),
         simulation_running = True,
         simulation_paused = False,
         total_vehicles_generated = 3,
         keep_running = True,
         show_help = False,
         pause_requested = False\<rparr>,
      simulation_at = Simulation_head,
      generator_at = Generator_head,
      input_at = Input_head,
      deadlock_check_counter = 1\<rparr>"

definition quiet_events :: "unit event list" where
  "quiet_events =
     [Generator_enter, Arrival 1 3 (),
      Generator_enter, Arrival 1 4 (),
      Simulation_enter, Update_state empty_metrics () [], Schedule True 5 6,
      Time_slice True 7 8 9,
      Generator_enter, Arrival 0 10 ()]"

text \<open>
  The run goes on: the input loop and the simulation loop pass their loop conditions, a
  signal is delivered, the input loop reads the key \<open>1\<close> and finds the scheduler lock
  free, and the simulation loop runs its body, in which \<^verbatim>\<open>update_simulation_state\<close>
  changes nothing.
\<close>

definition signal_events :: "unit event list" where
  "signal_events =
     [Input_enter, Simulation_enter, Signal, Key (key CHR ''1'') True False,
      Update_state (metrics (system quiet_state)) () [], Schedule True 11 12]"

text \<open>Time slices for the running lane 0 of \<open>switch_lanes\<close> and for a lane with one vehicle.\<close>

definition slice_result :: "Scheduler \<times> LaneProcess \<times> PerformanceMetrics" where
  "slice_result =
     execute_lane_time_slice True 100 101 102 switch_scheduler (switch_lanes ! 0) empty_metrics"

definition last_slice_result :: "Scheduler \<times> LaneProcess \<times> PerformanceMetrics" where
  "last_slice_result =
     execute_lane_time_slice True 100 101 102 switch_scheduler
       (example_lane 0 RUNNING [9] 10) empty_metrics"

text \<open>A lane whose queue of capacity 2 is full, and lanes that hold 3 and 1 quadrants.\<close>

definition full_lane :: LaneProcess where
  "full_lane = (example_lane 0 READY [1, 2] 10)\<lparr>queue := Some \<lparr>items = [1, 2], capacity = 2\<rparr>\<rparr>"

definition quadrant_lanes :: "LaneProcess list" where
  "quadrant_lanes =
     [(example_lane 0 RUNNING [1] 10)\<lparr>allocated_quadrants := 3, requested_quadrants := 3\<rparr>,
      (example_lane 1 BLOCKED [2] 20)\<lparr>allocated_quadrants := 1, requested_quadrants := 2\<rparr>,
      example_lane 2 WAITING [] 0, example_lane 3 WAITING [] 0]"

section \<open>Evaluation of the examples\<close>

lemmas example_defs =
  sjf_example_def tie_example_def example_lane_def empty_metrics_def no_policy_def
  third_lane_policy_def switch_scheduler_def switch_lanes_def switch_result_def
  stale_result_def first_switch_def started_example_def started_program_def quiet_state_def quiet_events_def signal_events_def
  slice_result_def last_slice_result_def full_lane_def quadrant_lanes_def

lemmas model_defs =
  init_lane_process_def zeroed_lane_def create_queue_def get_size_def enqueue_def dequeue_def
  add_vehicle_to_lane_def remove_vehicle_from_lane_unlocked_def
  schedule_next_lane_sjf_def sjf_body_def VEHICLE_CROSS_TIME_def INT_MAX_def INT_MIN_def
  int_in_range_def int_cast_def MAX_QUEUE_CAPACITY_def NUM_LANES_def init_scheduler_def
  DEFAULT_TIME_QUANTUM_def CONTEXT_SWITCH_TIME_def start_scheduler_def
  context_switch_def stop_previous_lane_def start_new_lane_def
  update_context_switch_count_def schedule_next_lane_def
  set_scheduling_algorithm_def stop_running_lane_def
  init_traffic_guru_system_def switch_algorithm_def start_traffic_simulation_def
  set_time_quantum_def vehicle_generator_iteration_def schedule_step_def
  time_slice_step_def execute_lane_time_slice_def record_execution_def

lemmas program_defs =
  start_program_def update_simulation_state_def starts_no_lane_def loop_condition_def
  fire_def handle_signal_interrupt_def handle_user_input_def key_def ERR_def
  validate_single_lane_running_def

section \<open>The policies select a ready lane or none\<close>

text \<open>
  Every selection loop of \<^verbatim>\<open>sjf_scheduler.c\<close> has the same shape: the body either keeps
  the lane selected so far or selects the lane it visits, and it selects only a lane that
  is ready. Such a loop ends with \<open>-1\<close> or with a ready lane among those visited.
\<close>

lemma guarded_foldl_ready:
  assumes body: "\<And>acc i. fst (body acc i) = fst acc \<or> (fst (body acc i) = int i \<and> ready i)"
    and init: "fst acc = - 1 \<or> (\<exists>k\<in>S. fst acc = int k \<and> ready k)"
  shows "fst (foldl body acc ns) = - 1 \<or>
         (\<exists>k\<in>S \<union> set ns. fst (foldl body acc ns) = int k \<and> ready k)"
  using init
proof (induction ns arbitrary: acc S)
  case Nil
  then show ?case by simp
next
  case (Cons i ns)
  have "fst (body acc i) = - 1 \<or> (\<exists>k\<in>insert i S. fst (body acc i) = int k \<and> ready k)"
    using body [of acc i] Cons.prems by auto
  from Cons.IH [OF this] show ?case by simp
qed

lemma sjf_body_fst:
  "fst (sjf_body ls acc i) = fst acc \<or>
   (fst (sjf_body ls acc i) = int i \<and> state (ls ! i) = READY)"
  by (cases acc) (simp add: sjf_body_def Let_def)

lemma srtf_body_fst:
  "fst (srtf_body ls acc i) = fst acc \<or>
   (fst (srtf_body ls acc i) = int i \<and> state (ls ! i) = READY)"
  by (cases acc) (simp add: srtf_body_def Let_def)

lemma aging_body_fst:
  "fst (aging_body ls acc i) = fst acc \<or>
   (fst (aging_body ls acc i) = int i \<and> state (ls ! i) = READY)"
  by (cases acc) (simp add: aging_body_def Let_def)

lemma sjf_returns_ready_lane:
  "schedule_next_lane_sjf now ls = - 1 \<or>
   (\<exists>k<4. schedule_next_lane_sjf now ls = int k \<and> state (ls ! k) = READY)"
proof -
  have "fst (foldl (sjf_body ls) (- 1, INT_MAX, now) [0..<4]) = - 1 \<or>
        (\<exists>k\<in>{} \<union> set [0..<4]. fst (foldl (sjf_body ls) (- 1, INT_MAX, now) [0..<4]) = int k \<and>
            state (ls ! k) = READY)"
    by (rule guarded_foldl_ready [OF sjf_body_fst]) simp
  then show ?thesis
    by (auto simp: schedule_next_lane_sjf_def)
qed

lemma srtf_returns_ready_lane:
  "schedule_next_lane_srtf ls = - 1 \<or>
   (\<exists>k<4. schedule_next_lane_srtf ls = int k \<and> state (ls ! k) = READY)"
proof -
  have "fst (foldl (srtf_body ls) (- 1, INT_MAX) [0..<4]) = - 1 \<or>
        (\<exists>k\<in>{} \<union> set [0..<4]. fst (foldl (srtf_body ls) (- 1, INT_MAX) [0..<4]) = int k \<and>
            state (ls ! k) = READY)"
    by (rule guarded_foldl_ready [OF srtf_body_fst]) simp
  then show ?thesis
    by (auto simp: schedule_next_lane_srtf_def)
qed

lemma aging_returns_ready_lane:
  "schedule_next_lane_sjf_with_aging ls = - 1 \<or>
   (\<exists>k<4. schedule_next_lane_sjf_with_aging ls = int k \<and> state (ls ! k) = READY)"
proof -
  have "fst (foldl (aging_body ls) (- 1, FLT_MAX) [0..<4]) = - 1 \<or>
        (\<exists>k\<in>{} \<union> set [0..<4]. fst (foldl (aging_body ls) (- 1, FLT_MAX) [0..<4]) = int k \<and>
            state (ls ! k) = READY)"
    by (rule guarded_foldl_ready [OF aging_body_fst]) simp
  then show ?thesis
    by (auto simp: schedule_next_lane_sjf_with_aging_def)
qed

text \<open>
  The enhanced policy does not return once a lane has served a vehicle: the accessor it
  calls for that lane locks the mutex that the policy holds.
\<close>

lemma enhanced_sjf_blocks:
  "total_vehicles_served (ls ! 0) \<noteq> 0 \<Longrightarrow> schedule_next_lane_enhanced_sjf ls = None"
  by (simp add: schedule_next_lane_enhanced_sjf_def enhanced_sjf_read_def
      get_lane_average_wait_time_def pthread_mutex_lock_def upt_rec)

text \<open>
  Claim C3: every policy of \<^verbatim>\<open>sjf_scheduler.c\<close> returns \<open>-1\<close> when no lane is ready and
  never the index of a lane that is not ready. The code does not do this for the predictive
  policy: \<^verbatim>\<open>schedule_next_lane_predictive_sjf\<close> locks the first lane and calls
  \<^verbatim>\<open>get_lane_throughput\<close>, which locks the same mutex again, so for every input, the one
  with no ready lane included, the policy does not return at all.
\<close>

theorem predictive_sjf_never_returns: "schedule_next_lane_predictive_sjf ls = None"
  by (simp add: schedule_next_lane_predictive_sjf_def predictive_sjf_read_def
      get_lane_throughput_def pthread_mutex_lock_def upt_rec)

section \<open>Shortest job first selects the cheapest ready lane\<close>

lemma sjf_body_inv:
  assumes "sjf_inv ls S acc"
    and "state (ls ! i) = READY \<longrightarrow> sjf_cost (ls ! i) < INT_MAX"
  shows "sjf_inv ls (insert i S) (sjf_body ls acc i)"
proof (cases acc)
  case (fields b m e)
  show ?thesis
  proof (cases "state (ls ! i) = READY")
    case False
    with assms fields show ?thesis
      by (auto simp: sjf_inv_def sjf_body_def)
  next
    case True
    with assms fields show ?thesis
      unfolding sjf_inv_def sjf_body_def sjf_cost_def Let_def
      by (auto; force)
  qed
qed

lemma sjf_foldl_inv:
  assumes "sjf_inv ls S acc"
    and "\<forall>i\<in>set ns. state (ls ! i) = READY \<longrightarrow> sjf_cost (ls ! i) < INT_MAX"
  shows "sjf_inv ls (S \<union> set ns) (foldl (sjf_body ls) acc ns)"
  using assms
proof (induction ns arbitrary: S acc)
  case Nil
  then show ?case by simp
next
  case (Cons i ns)
  have "sjf_inv ls (insert i S) (sjf_body ls acc i)"
    using Cons.prems by (intro sjf_body_inv) auto
  from Cons.IH [OF this] Cons.prems(2) show ?case by simp
qed

text \<open>
  A cost that fits a C \<^verbatim>\<open>int\<close> is below \<open>INT_MAX\<close>, the initial minimum of the loop:
  \<open>INT_MAX\<close> is not a multiple of the crossing time.
\<close>

lemma cost_below_INT_MAX:
  "int_in_range (queue_length l * VEHICLE_CROSS_TIME) \<Longrightarrow> sjf_cost l < INT_MAX"
  unfolding int_in_range_def sjf_cost_def VEHICLE_CROSS_TIME_def INT_MAX_def INT_MIN_def
  by presburger

lemma sjf_final_inv:
  assumes "\<forall>i<4. int_in_range (queue_length (ls ! i) * VEHICLE_CROSS_TIME)"
  shows "sjf_inv ls {0..<4} (foldl (sjf_body ls) (- 1, INT_MAX, now) [0..<4])"
proof -
  have "sjf_inv ls {} (- 1, INT_MAX, now)"
    by (simp add: sjf_inv_def)
  moreover have "\<forall>i\<in>set [0..<4]. state (ls ! i) = READY \<longrightarrow> sjf_cost (ls ! i) < INT_MAX"
    using assms cost_below_INT_MAX by auto
  ultimately have "sjf_inv ls ({} \<union> set [0..<4]) (foldl (sjf_body ls) (- 1, INT_MAX, now) [0..<4])"
    by (rule sjf_foldl_inv)
  then show ?thesis by simp
qed

text \<open>
  Claim C2: the SJF policy considers exactly the lanes whose state is \<open>READY\<close>, gives each
  the cost queue length times crossing time, and returns a candidate of minimum cost; among
  candidates of equal cost it returns one with the earliest last arrival. With no ready
  lane it returns \<open>-1\<close>. The costs are assumed to fit a C \<^verbatim>\<open>int\<close>, which every queue
  length up to the capacity does. The crossing time in force is 3.
\<close>

theorem sjf_selects_cheapest_ready_lane:
  assumes "length ls = 4"
    and "\<forall>i<4. int_in_range (queue_length (ls ! i) * VEHICLE_CROSS_TIME)"
  shows "VEHICLE_CROSS_TIME = 3 \<and>
         (if \<forall>i<4. state (ls ! i) \<noteq> READY then schedule_next_lane_sjf now ls = - 1
          else \<exists>k<4. schedule_next_lane_sjf now ls = int k \<and> state (ls ! k) = READY \<and>
                 (\<forall>j<4. state (ls ! j) = READY \<longrightarrow>
                     sjf_cost (ls ! k) \<le> sjf_cost (ls ! j) \<and>
                     (sjf_cost (ls ! j) = sjf_cost (ls ! k) \<longrightarrow>
                        last_arrival_time (ls ! k) \<le> last_arrival_time (ls ! j))))"
proof -
  obtain b m e where acc: "foldl (sjf_body ls) (- 1, INT_MAX, now) [0..<4] = (b, m, e)"
    by (cases "foldl (sjf_body ls) (- 1, INT_MAX, now) [0..<4]")
  have res: "schedule_next_lane_sjf now ls = b"
    by (simp add: schedule_next_lane_sjf_def acc)
  have inv: "sjf_inv ls {0..<4} (b, m, e)"
    using sjf_final_inv [OF assms(2), of now] acc by simp
  have ?thesis if "\<forall>i<4. state (ls ! i) \<noteq> READY"
  proof -
    from inv that have "b = - 1"
      by (auto simp: sjf_inv_def)
    with that res show ?thesis
      by (simp add: VEHICLE_CROSS_TIME_def)
  qed
  moreover have ?thesis if some: "\<not> (\<forall>i<4. state (ls ! i) \<noteq> READY)"
  proof -
    from inv some obtain k where k: "k < 4" "b = int k" "state (ls ! k) = READY"
      and least: "\<forall>j\<in>{0..<4}. state (ls ! j) = READY \<longrightarrow>
                   sjf_cost (ls ! k) < sjf_cost (ls ! j) \<or>
                   (sjf_cost (ls ! k) = sjf_cost (ls ! j) \<and>
                    last_arrival_time (ls ! k) \<le> last_arrival_time (ls ! j))"
      by (auto simp: sjf_inv_def)
    have "\<forall>j<4. state (ls ! j) = READY \<longrightarrow>
             sjf_cost (ls ! k) \<le> sjf_cost (ls ! j) \<and>
             (sjf_cost (ls ! j) = sjf_cost (ls ! k) \<longrightarrow>
                last_arrival_time (ls ! k) \<le> last_arrival_time (ls ! j))"
      using least by fastforce
    with k res some show ?thesis
      by (auto simp: VEHICLE_CROSS_TIME_def)
  qed
  ultimately show ?thesis by blast
qed

text \<open>
  Witness for C2: with ready lanes of queue lengths 3, 1 and 2 the costs are 9, 3 and 6
  and lane 1, the one with a single vehicle, is selected; of two ready lanes with two
  vehicles each, the one whose last arrival is earlier is selected. Both selections are
  read off the theorem.
\<close>

theorem sjf_selects_cheapest_ready_lane_witness:
  "length sjf_example = 4 \<and>
   list_all (\<lambda>l. int_in_range (queue_length l * VEHICLE_CROSS_TIME)) sjf_example \<and>
   map state sjf_example = [READY, READY, READY, WAITING] \<and>
   map queue_length sjf_example = [3, 1, 2, 0] \<and>
   map sjf_cost sjf_example = [9, 3, 6, 0] \<and>
   schedule_next_lane_sjf 100 sjf_example = 1 \<and>
   length tie_example = 4 \<and>
   list_all (\<lambda>l. int_in_range (queue_length l * VEHICLE_CROSS_TIME)) tie_example \<and>
   map state tie_example = [READY, WAITING, READY, WAITING] \<and>
   map queue_length tie_example = [2, 0, 2, 0] \<and>
   map last_arrival_time tie_example = [50, 0, 40, 0] \<and>
   schedule_next_lane_sjf 100 tie_example = 2"
proof -
  have len: "length sjf_example = 4" "length tie_example = 4"
    by (simp_all add: example_defs)
  have fits: "list_all (\<lambda>l. int_in_range (queue_length l * VEHICLE_CROSS_TIME)) sjf_example"
    "list_all (\<lambda>l. int_in_range (queue_length l * VEHICLE_CROSS_TIME)) tie_example"
    by (simp_all add: example_defs model_defs)
  then have rng: "\<forall>i<4. int_in_range (queue_length (sjf_example ! i) * VEHICLE_CROSS_TIME)"
    "\<forall>i<4. int_in_range (queue_length (tie_example ! i) * VEHICLE_CROSS_TIME)"
    using len by (simp_all add: list_all_length)
  have vals: "map state sjf_example = [READY, READY, READY, WAITING]"
    "map queue_length sjf_example = [3, 1, 2, 0]"
    "map sjf_cost sjf_example = [9, 3, 6, 0]"
    "map state tie_example = [READY, WAITING, READY, WAITING]"
    "map queue_length tie_example = [2, 0, 2, 0]"
    "map last_arrival_time tie_example = [50, 0, 40, 0]"
    by (simp_all add: example_defs model_defs sjf_cost_def)
  have st: "state (sjf_example ! 0) = READY" "state (sjf_example ! 1) = READY"
    "state (sjf_example ! 3) = WAITING"
    "state (tie_example ! 0) = READY" "state (tie_example ! 2) = READY"
    "state (tie_example ! 1) = WAITING" "state (tie_example ! 3) = WAITING"
    by (simp_all add: example_defs model_defs)
  have cost: "sjf_cost (sjf_example ! 0) = 9" "sjf_cost (sjf_example ! 1) = 3"
    "sjf_cost (sjf_example ! 2) = 6"
    "sjf_cost (tie_example ! 0) = 6" "sjf_cost (tie_example ! 2) = 6"
    "last_arrival_time (tie_example ! 0) = 50" "last_arrival_time (tie_example ! 2) = 40"
    by (simp_all add: example_defs model_defs sjf_cost_def)
  have cases4: "k = 0 \<or> k = 1 \<or> k = 2 \<or> k = 3" if "k < 4" for k :: nat
    using that by arith
  have first: "schedule_next_lane_sjf 100 sjf_example = 1"
  proof -
    from sjf_selects_cheapest_ready_lane [OF len(1) rng(1), of 100] st(1)
    obtain k where k: "k < 4" "schedule_next_lane_sjf 100 sjf_example = int k"
      "state (sjf_example ! k) = READY"
      and least: "\<forall>j<4. state (sjf_example ! j) = READY \<longrightarrow>
                    sjf_cost (sjf_example ! k) \<le> sjf_cost (sjf_example ! j)"
      by (auto split: if_splits)
    from least [rule_format, of 1] st(2) cost(2) have "sjf_cost (sjf_example ! k) \<le> 3"
      by simp
    with cases4 [OF k(1)] k(3) st(3) cost have "k = 1"
      by auto
    with k(2) show ?thesis by simp
  qed
  have second: "schedule_next_lane_sjf 100 tie_example = 2"
  proof -
    from sjf_selects_cheapest_ready_lane [OF len(2) rng(2), of 100] st(4)
    obtain k where k: "k < 4" "schedule_next_lane_sjf 100 tie_example = int k"
      "state (tie_example ! k) = READY"
      and least: "\<forall>j<4. state (tie_example ! j) = READY \<longrightarrow>
                    sjf_cost (tie_example ! k) \<le> sjf_cost (tie_example ! j) \<and>
                    (sjf_cost (tie_example ! j) = sjf_cost (tie_example ! k) \<longrightarrow>
                       last_arrival_time (tie_example ! k) \<le> last_arrival_time (tie_example ! j))"
      by (auto split: if_splits)
    have "k \<noteq> 0"
    proof
      assume "k = 0"
      with least [rule_format, of 2] st(5) cost have "last_arrival_time (tie_example ! 0) \<le> 40"
        by simp
      with cost(6) show False by simp
    qed
    with cases4 [OF k(1)] k(3) st(6,7) have "k = 2"
      by auto
    with k(2) show ?thesis by simp
  qed
  from len fits vals first second show ?thesis by simp
qed

section \<open>The scheduling decision and the context switch\<close>

lemma context_switch_length [simp]: "length (context_switch ls f t) = length ls"
  by (simp add: context_switch_def Let_def split: option.splits)

text \<open>What \<^verbatim>\<open>schedule_next_lane\<close> returns when it switches, and the lane it selects.\<close>

lemma schedule_next_lane_switch:
  assumes run: "schedule_next_lane ml prr glf now now' sched ls m = (next_lane, sched', ls', m')"
    and sel: "next_lane \<noteq> current_lane sched" "next_lane \<noteq> - 1"
  shows "ls' = context_switch ls
                 (if current_lane sched \<ge> 0 then Some (nat (current_lane sched)) else None)
                 (Some (nat next_lane))"
    and "sched' = sched\<lparr>current_lane := next_lane, last_schedule_time := now'\<rparr>"
    and "m' = (if glf then update_context_switch_count m else m)"
  using run sel
  by (auto simp: schedule_next_lane_def Let_def split: if_splits)

lemma schedule_next_lane_result:
  assumes "schedule_next_lane ml prr glf now now' sched ls m = (next_lane, sched', ls', m')"
  shows "next_lane = (case algorithm sched of
               SJF \<Rightarrow> schedule_next_lane_sjf now ls
             | MULTILEVEL_FEEDBACK \<Rightarrow> ml sched ls
             | PRIORITY_ROUND_ROBIN \<Rightarrow> prr sched ls)"
  using assms
  by (auto simp: schedule_next_lane_def Let_def split: if_splits)

lemma surjective_quadruple: "r = (fst r, fst (snd r), fst (snd (snd r)), snd (snd (snd r)))"
  by simp



text \<open>
  A target that is not \<open>READY\<close> keeps its state and its waiting time through
  \<^verbatim>\<open>context_switch\<close>, unless the same lane is also passed as the lane to stop and is
  running (then it is made ready and started again).
\<close>

lemma context_switch_target_not_ready:
  assumes "t < length ls" "state (ls ! t) \<noteq> READY"
    and "from_lane \<noteq> Some t \<or> state (ls ! t) \<noteq> RUNNING"
  shows "state (context_switch ls from_lane (Some t) ! t) = state (ls ! t) \<and>
         waiting_time (context_switch ls from_lane (Some t) ! t) = waiting_time (ls ! t)"
proof (cases from_lane)
  case None
  with assms show ?thesis
    by (simp add: context_switch_def start_new_lane_def)
next
  case (Some f)
  show ?thesis
  proof (cases "f = t")
    case True
    with Some assms show ?thesis
      by (simp add: context_switch_def start_new_lane_def stop_previous_lane_def)
  next
    case False
    with Some assms show ?thesis
      by (simp add: context_switch_def start_new_lane_def Let_def)
  qed
qed

text \<open>
  Claim C10: if the lane passed to \<^verbatim>\<open>context_switch\<close> as the target is not \<open>READY\<close>, the
  context switch leaves its state and its waiting time unchanged, and
  \<^verbatim>\<open>schedule_next_lane\<close> makes it the current lane all the same; so the current lane may be
  a lane that is not \<open>RUNNING\<close>.
\<close>

theorem current_lane_may_not_be_running:
  assumes run: "schedule_next_lane ml prr glf now now' sched ls m = (next_lane, sched', ls', m')"
    and sel: "next_lane \<noteq> current_lane sched" "next_lane \<noteq> - 1"
    and rng: "length ls = 4" "0 \<le> next_lane" "next_lane < 4"
    and target: "state (ls ! nat next_lane) \<noteq> READY"
  shows "ls' = context_switch ls
                 (if current_lane sched \<ge> 0 then Some (nat (current_lane sched)) else None)
                 (Some (nat next_lane)) \<and>
         state (ls' ! nat next_lane) = state (ls ! nat next_lane) \<and>
         waiting_time (ls' ! nat next_lane) = waiting_time (ls ! nat next_lane) \<and>
         current_lane sched' = next_lane \<and>
         (state (ls ! nat next_lane) \<noteq> RUNNING \<longrightarrow>
            state (ls' ! nat (current_lane sched')) \<noteq> RUNNING)"
proof -
  note sw = schedule_next_lane_switch [OF run sel]
  have n: "nat next_lane < length ls"
    using rng by simp
  have "(if current_lane sched \<ge> 0 then Some (nat (current_lane sched)) else None)
          \<noteq> Some (nat next_lane)"
    using sel(1) rng by auto
  then have keep: "state (ls' ! nat next_lane) = state (ls ! nat next_lane) \<and>
      waiting_time (ls' ! nat next_lane) = waiting_time (ls ! nat next_lane)"
    unfolding sw(1) by (intro context_switch_target_not_ready n target) simp
  moreover have "current_lane sched' = next_lane"
    by (simp add: sw(2))
  ultimately show ?thesis
    using sw(1) by simp
qed

text \<open>
  Witness for C10: the multilevel policy, here one that returns lane 2, selects a lane
  that is \<open>WAITING\<close> with a waiting time of 5. Afterwards lane 2 is the current lane and
  is still \<open>WAITING\<close> with waiting time 5.
\<close>

theorem current_lane_may_not_be_running_witness:
  "schedule_next_lane third_lane_policy no_policy True 100 101
     (switch_scheduler\<lparr>algorithm := MULTILEVEL_FEEDBACK\<rparr>) switch_lanes empty_metrics
     = stale_result \<and>
   current_lane (switch_scheduler\<lparr>algorithm := MULTILEVEL_FEEDBACK\<rparr>) = 0 \<and>
   length switch_lanes = 4 \<and>
   state (switch_lanes ! 2) = WAITING \<and> waiting_time (switch_lanes ! 2) = 5 \<and>
   fst stale_result = 2 \<and>
   current_lane (fst (snd stale_result)) = 2 \<and>
   state (fst (snd (snd stale_result)) ! 2) = WAITING \<and>
   waiting_time (fst (snd (snd stale_result)) ! 2) = 5"
proof -
  have run: "schedule_next_lane third_lane_policy no_policy True 100 101
               (switch_scheduler\<lparr>algorithm := MULTILEVEL_FEEDBACK\<rparr>) switch_lanes empty_metrics
             = (fst stale_result, fst (snd stale_result), fst (snd (snd stale_result)),
                snd (snd (snd stale_result)))"
    unfolding stale_result_def [symmetric] by (rule surjective_quadruple)
  have before: "current_lane (switch_scheduler\<lparr>algorithm := MULTILEVEL_FEEDBACK\<rparr>) = 0"
    "length switch_lanes = 4"
    "state (switch_lanes ! 2) = WAITING" "waiting_time (switch_lanes ! 2) = 5"
    by (simp_all add: example_defs model_defs)
  have nxt: "fst stale_result = 2"
    by (simp add: example_defs model_defs Let_def)
  have "state (fst (snd (snd stale_result)) ! 2) = state (switch_lanes ! 2) \<and>
        waiting_time (fst (snd (snd stale_result)) ! 2) = waiting_time (switch_lanes ! 2) \<and>
        current_lane (fst (snd stale_result)) = 2"
    using current_lane_may_not_be_running [OF run, THEN conjunct2] before nxt by simp
  with before nxt show ?thesis
    by (simp add: stale_result_def)
qed

text \<open>
  Claim C5: every context switch performed by \<^verbatim>\<open>schedule_next_lane\<close> increments the
  switch counter \<^verbatim>\<open>total_context_switches\<close> of the scheduler by one. The code does not do
  this: no path of \<^verbatim>\<open>schedule_next_lane\<close> writes the field (the increment that was
  commented out in \<^verbatim>\<open>context_switch\<close> is marked as moved here, and is not here). In the
  first decision of a fresh scheduler over \<open>sjf_example\<close> the current lane changes from
  none to lane 1, lane 1 starts running, the counter of the metrics goes from 0 to 1, and
  \<^verbatim>\<open>total_context_switches\<close> is still 0, as is the overhead computed from it.
\<close>

theorem total_context_switches_never_incremented:
  "total_context_switches (fst (snd (schedule_next_lane ml prr glf now now' sched ls m)))
     = total_context_switches sched \<and>
   current_lane (init_scheduler SJF 0 None) = - 1 \<and>
   total_context_switches (init_scheduler SJF 0 None) = 0 \<and>
   fst first_switch = 1 \<and>
   current_lane (fst (snd first_switch)) = 1 \<and>
   state (fst (snd (snd first_switch)) ! 1) = RUNNING \<and>
   context_switches (snd (snd (snd first_switch))) = context_switches empty_metrics + 1 \<and>
   total_context_switches (fst (snd first_switch)) = 0 \<and>
   calculate_context_switch_overhead True (fst (snd first_switch)) = 0"
proof -
  have "total_context_switches (fst (snd (schedule_next_lane ml prr glf now now' sched ls m)))
          = total_context_switches sched"
    by (simp add: schedule_next_lane_def Let_def)
  moreover have "current_lane (init_scheduler SJF 0 None) = - 1"
    "total_context_switches (init_scheduler SJF 0 None) = 0"
    "fst first_switch = 1"
    "current_lane (fst (snd first_switch)) = 1"
    "state (fst (snd (snd first_switch)) ! 1) = RUNNING"
    "context_switches (snd (snd (snd first_switch))) = context_switches empty_metrics + 1"
    "total_context_switches (fst (snd first_switch)) = 0"
    "calculate_context_switch_overhead True (fst (snd first_switch)) = 0"
    by (simp_all add: example_defs model_defs upt_rec Let_def
        calculate_context_switch_overhead_def)
  ultimately show ?thesis by simp
qed

section \<open>Mutual exclusion of the lanes\<close>

text \<open>
  Only \<^verbatim>\<open>context_switch\<close> starts a lane, after it has stopped the current one, and every
  other operation leaves a running lane running or stops it. As long as
  \<^verbatim>\<open>simulation_running\<close> is set, a lane that is \<open>RUNNING\<close> is therefore the current lane,
  and at most one lane is \<open>RUNNING\<close>.
\<close>

lemma single_lane_runningI:
  assumes "\<forall>i<4. state (ls ! i) = RUNNING \<longrightarrow> c = int i"
  shows "single_lane_running ls"
  unfolding single_lane_running_def
proof (intro allI impI)
  fix i j :: nat
  assume "i < 4" "j < 4" "state (ls ! i) = RUNNING \<and> state (ls ! j) = RUNNING"
  with assms have "c = int i" "c = int j"
    by blast+
  then show "i = j" by simp
qed

lemma invariant_no_start:
  assumes "system_invariant s"
    and "length (lanes s') = length (lanes s)"
    and "\<forall>i<4. state (lanes s' ! i) = RUNNING \<longrightarrow> state (lanes s ! i) = RUNNING"
    and "current_lane (scheduler s') = current_lane (scheduler s)"
    and "simulation_running s' \<longrightarrow> simulation_running s"
  shows "system_invariant s'"
  using assms by (simp add: system_invariant_def)

lemma policy_result_in_range:
  assumes "policy_in_range ml" "policy_in_range prr"
    and "schedule_next_lane ml prr glf now now' sched ls m = (next_lane, sched', ls', m')"
  shows "next_lane = - 1 \<or> (0 \<le> next_lane \<and> next_lane < 4)"
proof (cases "algorithm sched")
  case SJF
  then have "next_lane = schedule_next_lane_sjf now ls"
    using schedule_next_lane_result [OF assms(3)] by simp
  with sjf_returns_ready_lane [of now ls] show ?thesis by auto
next
  case MULTILEVEL_FEEDBACK
  then have "next_lane = ml sched ls"
    using schedule_next_lane_result [OF assms(3)] by simp
  with assms(1) show ?thesis by (simp add: policy_in_range_def)
next
  case PRIORITY_ROUND_ROBIN
  then have "next_lane = prr sched ls"
    using schedule_next_lane_result [OF assms(3)] by simp
  with assms(2) show ?thesis by (simp add: policy_in_range_def)
qed

lemma stop_previous_lane_not_running [simp]: "state (stop_previous_lane l) \<noteq> RUNNING"
  by (simp add: stop_previous_lane_def)

lemma stop_running_lane_not_running [simp]: "state (stop_running_lane l) \<noteq> RUNNING"
  by (simp add: stop_running_lane_def)

lemma context_switch_running:
  assumes len: "length ls = 4"
    and inv: "\<forall>i<4. state (ls ! i) = RUNNING \<longrightarrow> c = int i"
    and c: "- 1 \<le> c" "c < 4"
    and n: "n < 4" and i: "i < 4"
    and run: "state (context_switch ls (if c \<ge> 0 then Some (nat c) else None) (Some n) ! i) = RUNNING"
  shows "i = n"
proof (rule ccontr)
  assume "i \<noteq> n"
  with run len n i
  have r1: "state ((case (if c \<ge> 0 then Some (nat c) else None) of
                     None \<Rightarrow> ls
                   | Some f \<Rightarrow> ls[f := stop_previous_lane (ls ! f)]) ! i) = RUNNING"
    by (simp add: context_switch_def Let_def split: if_splits)
  show False
  proof (cases "c \<ge> 0")
    case True
    with r1 have r2: "state (ls[nat c := stop_previous_lane (ls ! nat c)] ! i) = RUNNING"
      by simp
    show False
    proof (cases "i = nat c")
      case True
      with r2 len i show False by simp
    next
      case False
      with r2 have "state (ls ! i) = RUNNING" by simp
      with inv i have "c = int i" by simp
      with False show False by simp
    qed
  next
    case False
    with r1 have "state (ls ! i) = RUNNING" by simp
    with inv i have "c = int i" by simp
    with False show False by simp
  qed
qed

lemma invariant_schedule:
  assumes inv: "system_invariant s"
    and pol: "policy_in_range ml" "policy_in_range prr"
  shows "system_invariant (snd (schedule_step ml prr glf now now' s))"
proof -
  obtain next_lane sched' ls' m' where
    run: "schedule_next_lane ml prr glf now now' (scheduler s) (lanes s) (metrics s)
            = (next_lane, sched', ls', m')"
    by (cases "schedule_next_lane ml prr glf now now' (scheduler s) (lanes s) (metrics s)")
  then have s': "snd (schedule_step ml prr glf now now' s)
                   = s\<lparr>scheduler := sched', lanes := ls', metrics := m'\<rparr>"
    by (simp add: schedule_step_def)
  have rng: "next_lane = - 1 \<or> (0 \<le> next_lane \<and> next_lane < 4)"
    by (rule policy_result_in_range [OF pol run])
  from inv have len: "length (lanes s) = 4"
    and c: "- 1 \<le> current_lane (scheduler s)" "current_lane (scheduler s) < 4"
    by (simp_all add: system_invariant_def)
  show ?thesis
  proof (cases "next_lane \<noteq> current_lane (scheduler s) \<and> next_lane \<noteq> - 1")
    case True
    then have sel: "next_lane \<noteq> current_lane (scheduler s)" "next_lane \<noteq> - 1"
      by simp_all
    note sw = schedule_next_lane_switch [OF run sel]
    from rng sel have n: "0 \<le> next_lane" "nat next_lane < 4" "next_lane < 4"
      by auto
    have "\<forall>i<4. state (ls' ! i) = RUNNING \<longrightarrow> next_lane = int i" if sim: "simulation_running s"
    proof (intro allI impI)
      fix i :: nat
      assume "i < 4" "state (ls' ! i) = RUNNING"
      moreover from inv sim
      have one: "\<forall>i<4. state (lanes s ! i) = RUNNING \<longrightarrow> current_lane (scheduler s) = int i"
        by (simp add: system_invariant_def)
      ultimately have "i = nat next_lane"
        unfolding sw(1) using context_switch_running [OF len one c n(2)] by blast
      with n show "next_lane = int i" by simp
    qed
    then show ?thesis
      using n len by (simp add: s' system_invariant_def sw(1) sw(2))
  next
    case False
    then have "ls' = lanes s" "current_lane sched' = current_lane (scheduler s)"
      using run by (auto simp: schedule_next_lane_def Let_def split: if_splits)
    with inv show ?thesis
      by (simp add: s' system_invariant_def)
  qed
qed

lemma remove_vehicle_state [simp]:
  "state (snd (remove_vehicle_from_lane_unlocked l)) = state l"
  by (simp add: remove_vehicle_from_lane_unlocked_def split: option.splits prod.splits)

lemma record_execution_current_lane [simp]:
  "current_lane (record_execution lf sched k a b p) = current_lane sched"
  by (simp add: record_execution_def split: option.splits)

lemma execute_lane_time_slice_state:
  assumes "execute_lane_time_slice slf a b c sched l m = (sched', l', m')"
  shows "current_lane sched' = current_lane sched"
    and "state l' = RUNNING \<longrightarrow> state l = RUNNING"
proof -
  obtain v l1 where rm: "remove_vehicle_from_lane_unlocked l = (v, l1)"
    by (cases "remove_vehicle_from_lane_unlocked l")
  then have l1: "state l1 = state l"
    using remove_vehicle_state [of l] by simp
  from assms rm show "current_lane sched' = current_lane sched"
    by (auto simp: execute_lane_time_slice_def Let_def)
  from assms rm l1 show "state l' = RUNNING \<longrightarrow> state l = RUNNING"
    by (auto simp: execute_lane_time_slice_def Let_def split: if_splits)
qed

lemma invariant_time_slice:
  assumes inv: "system_invariant s"
  shows "system_invariant (time_slice_step slf a b c i s)"
proof -
  obtain sched' l' m' where
    run: "execute_lane_time_slice slf a b c (scheduler s) (lanes s ! i) (metrics s) = (sched', l', m')"
    by (cases "execute_lane_time_slice slf a b c (scheduler s) (lanes s ! i) (metrics s)")
  then have s': "time_slice_step slf a b c i s
                  = s\<lparr>scheduler := sched', lanes := (lanes s)[i := l'], metrics := m'\<rparr>"
    by (simp add: time_slice_step_def)
  note st = execute_lane_time_slice_state [OF run]
  from inv have len: "length (lanes s) = 4"
    by (simp add: system_invariant_def)
  have "\<forall>j<4. state ((lanes s)[i := l'] ! j) = RUNNING \<longrightarrow> state (lanes s ! j) = RUNNING"
  proof (intro allI impI)
    fix j :: nat
    assume "j < 4" "state ((lanes s)[i := l'] ! j) = RUNNING"
    then show "state (lanes s ! j) = RUNNING"
      using st(2) len by (cases "j = i") simp_all
  qed
  then show ?thesis
    unfolding s' using st(1) by (intro invariant_no_start [OF inv]) simp_all
qed

lemma invariant_update:
  assumes inv: "system_invariant (system p)"
    and run: "update_simulation_state m' e' ls' p = Some p'"
  shows "system_invariant (system p')"
proof -
  from run have
    "system p' = (system p)\<lparr>metrics := m', emergency_system := e'\<rparr> \<or>
     (starts_no_lane (lanes (system p)) ls' \<and>
      system p' = (system p)\<lparr>metrics := m', emergency_system := e', lanes := ls'\<rparr>)"
    by (auto simp: update_simulation_state_def Let_def split: if_splits)
  then show ?thesis
  proof
    assume "system p' = (system p)\<lparr>metrics := m', emergency_system := e'\<rparr>"
    then show ?thesis
      by (intro invariant_no_start [OF inv]) simp_all
  next
    assume sweep: "starts_no_lane (lanes (system p)) ls' \<and>
      system p' = (system p)\<lparr>metrics := m', emergency_system := e', lanes := ls'\<rparr>"
    then have len: "length ls' = length (lanes (system p))"
      and st: "\<forall>i<length ls'. state (ls' ! i) = RUNNING \<longrightarrow> state (lanes (system p) ! i) = RUNNING"
      by (simp_all add: starts_no_lane_def list_all2_conv_all_nth)
    from inv have "length (lanes (system p)) = 4"
      by (simp add: system_invariant_def)
    with len st sweep show ?thesis
      by (intro invariant_no_start [OF inv]) simp_all
  qed
qed

lemma add_vehicle_state [simp]: "state (add_vehicle_to_lane l v now) = state l"
  by (simp add: add_vehicle_to_lane_def split: option.splits prod.splits bool.splits)

lemma invariant_arrival:
  assumes inv: "system_invariant s"
  shows "system_invariant (vehicle_generator_iteration k now e' s)"
proof -
  have "\<forall>j<4. state (lanes (vehicle_generator_iteration k now e' s) ! j) = RUNNING
          \<longrightarrow> state (lanes s ! j) = RUNNING"
  proof (intro allI impI)
    fix j :: nat
    assume "j < 4" "state (lanes (vehicle_generator_iteration k now e' s) ! j) = RUNNING"
    then show "state (lanes s ! j) = RUNNING"
      using inv
      by (cases "j = k")
         (simp_all add: vehicle_generator_iteration_def Let_def system_invariant_def
            split: if_splits)
  qed
  then show ?thesis
    by (intro invariant_no_start [OF inv]) (simp_all add: vehicle_generator_iteration_def Let_def)
qed

text \<open>
  \<^verbatim>\<open>set_scheduling_algorithm\<close> keeps the invariant in both of its branches: when the
  simulation runs it stops every running lane, and when it does not, the invariant asks
  nothing of the running lanes.
\<close>

lemma invariant_switch_algorithm:
  assumes inv: "system_invariant s"
  shows "system_invariant (switch_algorithm lf alg s)"
proof (cases lf)
  case False
  with inv show ?thesis
    by (simp add: switch_algorithm_def set_scheduling_algorithm_def)
next
  case True
  from inv have len: "length (lanes s) = 4"
    by (simp add: system_invariant_def)
  have none: "\<forall>i<4. state (map stop_running_lane (lanes s) ! i) \<noteq> RUNNING"
    using len by simp
  with True len show ?thesis
    by (simp add: switch_algorithm_def set_scheduling_algorithm_def Let_def system_invariant_def)
qed

lemma handle_user_input_effect:
  assumes "handle_user_input ch lf s = (r, s')"
  shows "s' = switch_algorithm lf SJF s \<or>
         s' = switch_algorithm lf MULTILEVEL_FEEDBACK s \<or>
         s' = switch_algorithm lf PRIORITY_ROUND_ROBIN s \<or>
         (lanes s' = lanes s \<and> scheduler s' = scheduler s \<and> metrics s' = metrics s \<and>
          emergency_system s' = emergency_system s \<and>
          simulation_running s' = simulation_running s)"
  using assms unfolding handle_user_input_def
  by (auto split: if_splits)

lemma invariant_user_input:
  assumes inv: "system_invariant s"
  shows "system_invariant (snd (handle_user_input ch lf s))"
proof -
  obtain r s' where run: "handle_user_input ch lf s = (r, s')"
    by (cases "handle_user_input ch lf s")
  have flags: "lanes s' = lanes s \<and> scheduler s' = scheduler s \<and>
      simulation_running s' = simulation_running s \<Longrightarrow> system_invariant s'"
    using inv by (simp add: system_invariant_def)
  from handle_user_input_effect [OF run] have "system_invariant s'"
    using invariant_switch_algorithm [OF inv] flags by auto
  with run show ?thesis by simp
qed

lemma invariant_signal:
  assumes inv: "system_invariant s"
  shows "system_invariant (handle_signal_interrupt s)"
proof (rule invariant_no_start [where s = s])
  show "system_invariant s" by fact
qed (simp_all add: handle_signal_interrupt_def)

lemma invariant_stop:
  assumes inv: "system_invariant s"
  shows "system_invariant (stop_traffic_simulation s)"
proof (rule invariant_no_start [where s = s])
  show "system_invariant s" by fact
qed (simp_all add: stop_traffic_simulation_def stop_scheduler_def)

lemma invariant_fire:
  assumes run: "fire ml prr ev p = Some p'" and inv: "system_invariant (system p)"
    and pol: "policy_in_range ml" "policy_in_range prr"
  shows "system_invariant (system p')"
proof (cases ev)
  case Signal
  with run have "system p' = handle_signal_interrupt (system p)"
    by (auto simp: fire_def)
  with invariant_signal [OF inv] show ?thesis by simp
next
  case Simulation_enter
  with run have "system p' = system p"
    by (auto simp: fire_def split: if_splits)
  with inv show ?thesis by simp
next
  case (Update_state m' e' ls')
  with run obtain q where "update_simulation_state m' e' ls' p = Some q" "system p' = system q"
    by (auto simp: fire_def split: if_splits)
  with invariant_update [OF inv] show ?thesis by simp
next
  case (Schedule glf now now')
  with run have "system p' = snd (schedule_step ml prr glf now now' (system p))"
    by (auto simp: fire_def split: if_splits prod.splits)
  with invariant_schedule [OF inv pol] show ?thesis by simp
next
  case (Time_slice slf a b c)
  with run obtain i where "system p' = time_slice_step slf a b c i (system p)"
    by (auto simp: fire_def split: simulation_position.splits)
  with invariant_time_slice [OF inv] show ?thesis by simp
next
  case Generator_enter
  with run have "system p' = system p"
    by (auto simp: fire_def split: if_splits)
  with inv show ?thesis by simp
next
  case (Arrival k now e')
  with run have "system p' = vehicle_generator_iteration k now e' (system p)"
    by (auto simp: fire_def split: if_splits)
  with invariant_arrival [OF inv] show ?thesis by simp
next
  case Input_enter
  with run have "system p' = system p"
    by (auto simp: fire_def split: if_splits)
  with inv show ?thesis by simp
next
  case Input_leave
  with run have "system p' = system p"
    by (auto simp: fire_def split: if_splits)
  with inv show ?thesis by simp
next
  case (Key ch lf elapsed)
  with run have "system p' = snd (handle_user_input ch lf (system p))"
    by (auto simp: fire_def split: if_splits)
  with invariant_user_input [OF inv] show ?thesis by simp
next
  case Stop
  with run have "system p' = stop_traffic_simulation (system p)"
    by (auto simp: fire_def split: if_splits)
  with invariant_stop [OF inv] show ?thesis by simp
qed

lemma invariant_run_events:
  assumes "run_events ml prr evs p = Some p'" and "system_invariant (system p)"
    and "policy_in_range ml" "policy_in_range prr"
  shows "system_invariant (system p')"
  using assms
proof (induction evs arbitrary: p)
  case Nil
  then show ?case by simp
next
  case (Cons ev evs)
  from Cons.prems(1) obtain q where
    q: "fire ml prr ev p = Some q" "run_events ml prr evs q = Some p'"
    by (auto split: option.splits)
  have "system_invariant (system q)"
    by (rule invariant_fire [OF q(1) Cons.prems(2-4)])
  then show ?case
    by (rule Cons.IH [OF q(2) _ Cons.prems(3,4)])
qed

lemma run_events_append:
  "run_events ml prr (xs @ ys) p =
     (case run_events ml prr xs p of None \<Rightarrow> None | Some q \<Rightarrow> run_events ml prr ys q)"
  by (induction xs arbitrary: p) (simp_all split: option.splits)

lemma invariant_started:
  "system_invariant (system (start_program now buffer m0 e0 seconds lf alg now'))"
proof -
  let ?s0 = "init_traffic_guru_system now buffer m0 e0 :: 'a TrafficGuruSystem"
  have st: "\<forall>i<4. state (lanes ?s0 ! i) = WAITING"
    by (simp add: init_traffic_guru_system_def NUM_LANES_def init_lane_process_def
        MAX_QUEUE_CAPACITY_def)
  have len: "length (lanes ?s0) = 4"
    by (simp add: init_traffic_guru_system_def NUM_LANES_def)
  have sim: "\<not> simulation_running ?s0"
    by (simp add: init_traffic_guru_system_def)
  have cur: "current_lane (scheduler ?s0) = - 1"
    by (simp add: init_traffic_guru_system_def init_scheduler_def)
  from st len sim cur show ?thesis
    by (auto simp: start_program_def start_traffic_simulation_def switch_algorithm_def
        set_time_quantum_def set_scheduling_algorithm_def start_scheduler_def
        system_invariant_def Let_def)
qed

lemma reachable_invariant:
  assumes "reachable ml prr p" "policy_in_range ml" "policy_in_range prr"
  shows "system_invariant (system p)"
proof -
  from assms(1) obtain now buffer m0 e0 seconds lock_free alg now' evs where
    "run_events ml prr evs (start_program now buffer m0 e0 seconds lock_free alg now') = Some p"
    unfolding reachable_def by blast
  then show ?thesis
    by (rule invariant_run_events [OF _ invariant_started assms(2,3)])
qed

lemma foldl_count_none:
  assumes "\<forall>i\<in>set ns. \<not> r i"
  shows "foldl (\<lambda>c i. if r i then c + 1 else c) (c0 :: int) ns = c0"
  using assms by (induction ns arbitrary: c0) simp_all

lemma foldl_count_le_one:
  assumes "\<forall>i\<in>set ns. \<forall>j\<in>set ns. r i \<and> r j \<longrightarrow> i = j" and "distinct ns"
  shows "foldl (\<lambda>c i. if r i then c + 1 else c) (c0 :: int) ns \<le> c0 + 1"
  using assms
proof (induction ns arbitrary: c0)
  case Nil
  then show ?case by simp
next
  case (Cons i ns)
  show ?case
  proof (cases "r i")
    case True
    have "\<forall>j\<in>set ns. \<not> r j"
      using Cons.prems True by auto
    then show ?thesis
      using True by (simp add: foldl_count_none)
  next
    case False
    have "foldl (\<lambda>c i. if r i then c + 1 else c) c0 ns \<le> c0 + 1"
      using Cons.prems by (intro Cons.IH) auto
    with False show ?thesis by simp
  qed
qed

lemma validate_of_single_lane_running:
  assumes "single_lane_running ls"
  shows "validate_single_lane_running acquired ls"
proof -
  have "\<forall>i\<in>set [0..<4]. \<forall>j\<in>set [0..<4].
          (acquired ! i \<and> state (ls ! i) = RUNNING) \<and> (acquired ! j \<and> state (ls ! j) = RUNNING)
            \<longrightarrow> i = j"
    using assms unfolding single_lane_running_def by auto
  then have "foldl (\<lambda>c i. if acquired ! i \<and> state (ls ! i) = RUNNING then c + 1 else c)
               (0 :: int) [0..<4] \<le> 0 + 1"
    by (rule foldl_count_le_one) simp
  then show ?thesis
    by (simp add: validate_single_lane_running_def Let_def)
qed

text \<open>
  In every state that the program reaches with \<^verbatim>\<open>simulation_running\<close> still set, that is,
  before a signal is delivered and before \<^verbatim>\<open>stop_traffic_simulation\<close>, at most one lane is
  \<open>RUNNING\<close>, and the check of the source succeeds whatever locks it obtains. The absent
  policies are assumed to return \<open>-1\<close> or a lane index.
\<close>

lemma single_lane_running_while_simulation_running:
  assumes "reachable ml prr p" and "policy_in_range ml" and "policy_in_range prr"
    and "simulation_running (system p)"
  shows "single_lane_running (lanes (system p))"
    and "validate_single_lane_running acquired (lanes (system p))"
proof -
  from reachable_invariant [OF assms(1-3)] assms(4)
  have "\<forall>i<4. state (lanes (system p) ! i) = RUNNING
          \<longrightarrow> current_lane (scheduler (system p)) = int i"
    by (simp add: system_invariant_def)
  then show "single_lane_running (lanes (system p))"
    by (rule single_lane_runningI)
  then show "validate_single_lane_running acquired (lanes (system p))"
    by (rule validate_of_single_lane_running)
qed

text \<open>
  The two events \<open>Schedule\<close> and \<open>Time_slice\<close> of the simulation loop together are
  \<^verbatim>\<open>process_traffic_events\<close>.
\<close>

lemma process_traffic_events_run:
  assumes "simulation_at p = Simulation_schedule"
  shows "\<exists>p'. run_events ml prr
                 (Schedule glf now now' #
                    (if fst (schedule_step ml prr glf now now' (system p)) \<noteq> - 1
                     then [Time_slice slf a b c] else [])) p = Some p' \<and>
              system p' = process_traffic_events ml prr glf now now' slf a b c (system p) \<and>
              simulation_at p' = Simulation_head"
proof -
  obtain n s1 where sch: "schedule_step ml prr glf now now' (system p) = (n, s1)"
    by (cases "schedule_step ml prr glf now now' (system p)")
  with assms show ?thesis
    by (simp add: fire_def process_traffic_events_def)
qed

text \<open>
  Claim C1: in every reachable state of the system at most one lane is \<open>RUNNING\<close>; this
  holds after every context switch of the scheduler, for every sequence of ticks, policy
  switches and emergency triggers. The program does not keep this once a signal is
  delivered. In the run \<open>quiet_events\<close> lane 1 is running, lane 0 is ready and the check
  of the source, \<^verbatim>\<open>validate_single_lane_running\<close>, succeeds. Then the input loop and the
  simulation loop pass their loop conditions, the signal handler clears
  \<^verbatim>\<open>simulation_running\<close>, and the key \<open>1\<close> makes \<^verbatim>\<open>set_scheduling_algorithm\<close> clear
  \<^verbatim>\<open>current_lane\<close> without stopping lane 1, because it stops the running lanes only while
  \<^verbatim>\<open>simulation_running\<close> is set. The scheduling decision of the simulation loop then
  finds no current lane to stop and starts lane 0: lanes 0 and 1 are both \<open>RUNNING\<close> in
  a state that the program reaches, and the check of the source fails.
\<close>

theorem two_lanes_running_after_signal:
  "run_events no_policy no_policy quiet_events started_program = Some quiet_state \<and>
   map state (lanes (system quiet_state)) = [READY, RUNNING, WAITING, WAITING] \<and>
   current_lane (scheduler (system quiet_state)) = 1 \<and>
   simulation_running (system quiet_state) \<and>
   validate_single_lane_running [True, True, True, True] (lanes (system quiet_state)) \<and>
   (\<exists>p. run_events no_policy no_policy signal_events quiet_state = Some p \<and>
        reachable no_policy no_policy p \<and>
        map state (lanes (system p)) = [RUNNING, RUNNING, WAITING, WAITING] \<and>
        current_lane (scheduler (system p)) = 0 \<and>
        \<not> simulation_running (system p) \<and>
        \<not> validate_single_lane_running [True, True, True, True] (lanes (system p)))"
proof -
  have quiet: "run_events no_policy no_policy quiet_events started_program = Some quiet_state"
    by (simp add: example_defs model_defs program_defs upt_rec Let_def)
  have before: "map state (lanes (system quiet_state)) = [READY, RUNNING, WAITING, WAITING]"
    "current_lane (scheduler (system quiet_state)) = 1"
    "simulation_running (system quiet_state)"
    "validate_single_lane_running [True, True, True, True] (lanes (system quiet_state))"
    by (simp_all add: example_defs model_defs program_defs upt_rec)
  have "\<exists>p. run_events no_policy no_policy signal_events quiet_state = Some p \<and>
          map state (lanes (system p)) = [RUNNING, RUNNING, WAITING, WAITING] \<and>
          current_lane (scheduler (system p)) = 0 \<and>
          \<not> simulation_running (system p) \<and>
          \<not> validate_single_lane_running [True, True, True, True] (lanes (system p))"
    by (simp add: example_defs model_defs program_defs upt_rec Let_def)
  then obtain p where
    p: "run_events no_policy no_policy signal_events quiet_state = Some p \<and>
        map state (lanes (system p)) = [RUNNING, RUNNING, WAITING, WAITING] \<and>
        current_lane (scheduler (system p)) = 0 \<and>
        \<not> simulation_running (system p) \<and>
        \<not> validate_single_lane_running [True, True, True, True] (lanes (system p))" ..
  have "run_events no_policy no_policy (quiet_events @ signal_events)
          (start_program 0 None empty_metrics () 3 True SJF 2) = Some p"
    using quiet p by (simp add: run_events_append started_program_def)
  then have "reachable no_policy no_policy p"
    unfolding reachable_def by (intro exI)
  with quiet before p show ?thesis
    by (intro conjI exI [of _ p]) simp_all
qed

section \<open>Adding a vehicle to a lane\<close>

text \<open>
  Counterexample for C6 as stated: a vehicle is added to a \<open>WAITING\<close> lane whose queue
  is empty and has room for 20 vehicles. The vehicle is queued, and the lane is still
  \<open>WAITING\<close>: \<^verbatim>\<open>add_vehicle_to_lane\<close> does not promote it to \<open>READY\<close>.
\<close>

theorem add_vehicle_to_lane_does_not_promote:
  "state (example_lane 0 WAITING [] 0) = WAITING \<and>
   queue (example_lane 0 WAITING [] 0) = Some \<lparr>items = [], capacity = 20\<rparr> \<and>
   queue (add_vehicle_to_lane (example_lane 0 WAITING [] 0) 7 100)
     = Some \<lparr>items = [7], capacity = 20\<rparr> \<and>
   state (add_vehicle_to_lane (example_lane 0 WAITING [] 0) 7 100) = WAITING \<and>
   state (add_vehicle_to_lane (example_lane 0 WAITING [] 0) 7 100) \<noteq> READY"
  by (simp add: example_defs model_defs)

text \<open>
  Claim C6, amended: \<^verbatim>\<open>add_vehicle_to_lane\<close> on a lane whose queue is at capacity leaves
  the lane unchanged, so the cached queue length, the last arrival time and the state keep
  their values; on a lane below capacity it appends the vehicle, sets the cached length to
  the size of the queue and sets the last arrival time, and it leaves the state as it was.
  The promotion from \<open>WAITING\<close> to \<open>READY\<close> is made by the caller: an iteration of the
  vehicle generator leaves the lane it served \<open>READY\<close> if it was \<open>WAITING\<close>, and in its
  previous state otherwise.
\<close>

theorem add_vehicle_to_lane_effect:
  assumes "queue l = Some q"
  shows "(capacity q \<le> length (items q) \<longrightarrow> add_vehicle_to_lane l v now = l) \<and>
         (length (items q) < capacity q \<longrightarrow>
            add_vehicle_to_lane l v now =
              l\<lparr>queue := Some (q\<lparr>items := items q @ [v]\<rparr>),
                queue_length := get_size (q\<lparr>items := items q @ [v]\<rparr>),
                last_arrival_time := now\<rparr>) \<and>
         state (add_vehicle_to_lane l v now) = state l \<and>
         (k < length (lanes s) \<longrightarrow>
            state (lanes (vehicle_generator_iteration k now e' s) ! k) =
              (if state (lanes s ! k) = WAITING then READY else state (lanes s ! k)))"
proof -
  have full: "capacity q \<le> length (items q) \<Longrightarrow> add_vehicle_to_lane l v now = l"
    using assms by (simp add: add_vehicle_to_lane_def enqueue_def)
  have room: "length (items q) < capacity q \<Longrightarrow>
      add_vehicle_to_lane l v now =
        l\<lparr>queue := Some (q\<lparr>items := items q @ [v]\<rparr>),
          queue_length := get_size (q\<lparr>items := items q @ [v]\<rparr>),
          last_arrival_time := now\<rparr>"
    using assms by (simp add: add_vehicle_to_lane_def enqueue_def)
  have wake: "k < length (lanes s) \<Longrightarrow>
      state (lanes (vehicle_generator_iteration k now e' s) ! k) =
        (if state (lanes s ! k) = WAITING then READY else state (lanes s ! k))"
    by (simp add: vehicle_generator_iteration_def Let_def)
  from full room wake show ?thesis
    by simp
qed

text \<open>
  Witness for amended C6: a full lane of capacity 2 is returned as it was; an empty waiting
  lane gets the vehicle, the length 1 and the arrival time, and stays \<open>WAITING\<close>; the
  generator iteration for lane 1 of the started system leaves that lane \<open>READY\<close>.
\<close>

theorem add_vehicle_to_lane_effect_witness:
  "queue full_lane = Some \<lparr>items = [1, 2], capacity = 2\<rparr> \<and>
   add_vehicle_to_lane full_lane 7 100 = full_lane \<and>
   queue (example_lane 0 WAITING [] 0) = Some \<lparr>items = [], capacity = 20\<rparr> \<and>
   queue (add_vehicle_to_lane (example_lane 0 WAITING [] 0) 7 100)
     = Some \<lparr>items = [7], capacity = 20\<rparr> \<and>
   queue_length (add_vehicle_to_lane (example_lane 0 WAITING [] 0) 7 100) = 1 \<and>
   last_arrival_time (add_vehicle_to_lane (example_lane 0 WAITING [] 0) 7 100) = 100 \<and>
   state (add_vehicle_to_lane (example_lane 0 WAITING [] 0) 7 100) = WAITING \<and>
   state (lanes started_example ! 1) = WAITING \<and>
   state (lanes (vehicle_generator_iteration 1 3 () started_example) ! 1) = READY"
proof -
  let ?l = "example_lane 0 WAITING [] 0"
  have qf: "queue full_lane = Some \<lparr>items = [1, 2], capacity = 2\<rparr>"
    by (simp add: example_defs model_defs)
  have q0: "queue ?l = Some \<lparr>items = [], capacity = 20\<rparr>"
    by (simp add: example_defs model_defs)
  have before: "state ?l = WAITING" "state (lanes started_example ! 1) = WAITING"
    "1 < length (lanes started_example)"
    by (simp_all add: example_defs model_defs upt_rec)
  have "add_vehicle_to_lane full_lane 7 100 = full_lane"
    using add_vehicle_to_lane_effect [OF qf, of 7 100 1 started_example "()"] by simp
  moreover have "add_vehicle_to_lane ?l 7 100 =
      ?l\<lparr>queue := Some \<lparr>items = [7], capacity = 20\<rparr>, queue_length := 1,
         last_arrival_time := 100\<rparr>"
    using add_vehicle_to_lane_effect [OF q0, of 7 100 1 started_example "()"]
    by (simp add: get_size_def)
  moreover have "state (lanes (vehicle_generator_iteration 1 3 () started_example) ! 1) = READY"
    using add_vehicle_to_lane_effect [OF q0, of 7 3 1 started_example "()"] before by simp
  ultimately show ?thesis
    using qf q0 before by simp
qed

section \<open>The time slice\<close>

text \<open>
  Claim C7: \<^verbatim>\<open>execute_lane_time_slice\<close> dequeues at most the batch limit of vehicles from
  the lane (in fact at most one), and it demotes the lane to \<open>WAITING\<close> only if the queue
  is empty afterwards; if the queue is still non-empty the state of the lane is not
  changed, so a running lane remains \<open>RUNNING\<close>.
\<close>

theorem execute_lane_time_slice_batch:
  assumes "queue l = Some q"
    and "execute_lane_time_slice slf a b c sched l m = (sched', l', m')"
  shows "\<exists>k q'. queue l' = Some q' \<and> items q' = drop k (items q) \<and> k \<le> 1 \<and>
           int k \<le> BATCH_EXIT_SIZE \<and>
           (state l' \<noteq> state l \<longrightarrow> state l = RUNNING \<and> state l' = WAITING \<and> items q' = []) \<and>
           (items q' \<noteq> [] \<longrightarrow> state l' = state l)"
proof (cases "items q")
  case Nil
  then have rm: "remove_vehicle_from_lane_unlocked l = (- 1, l\<lparr>queue := Some q, queue_length := 0\<rparr>)"
    using assms(1) by (simp add: remove_vehicle_from_lane_unlocked_def dequeue_def get_size_def)
  have "queue l' = Some q \<and> items q = drop 0 (items q) \<and>
        (state l' \<noteq> state l \<longrightarrow> state l = RUNNING \<and> state l' = WAITING \<and> items q = [])"
    using assms(2) rm Nil by (auto simp: execute_lane_time_slice_def Let_def split: if_splits)
  with Nil show ?thesis
    by (intro exI [of _ 0] exI [of _ q]) (simp add: BATCH_EXIT_SIZE_def)
next
  case (Cons v vs)
  let ?q' = "q\<lparr>items := vs\<rparr>"
  have rm: "remove_vehicle_from_lane_unlocked l
              = (v, l\<lparr>queue := Some ?q', queue_length := int (length vs)\<rparr>)"
    using assms(1) Cons
    by (simp add: remove_vehicle_from_lane_unlocked_def dequeue_def get_size_def)
  have "queue l' = Some ?q' \<and>
        (state l' \<noteq> state l \<longrightarrow> state l = RUNNING \<and> state l' = WAITING \<and> vs = []) \<and>
        (vs \<noteq> [] \<longrightarrow> state l' = state l)"
    using assms(2) rm by (auto simp: execute_lane_time_slice_def Let_def split: if_splits)
  with Cons show ?thesis
    by (intro exI [of _ 1] exI [of _ ?q']) (simp add: BATCH_EXIT_SIZE_def)
qed

text \<open>
  Witness for C7: a running lane with vehicles 1 and 2 queued keeps vehicle 2 and stays
  \<open>RUNNING\<close>; a running lane with vehicle 9 alone ends with an empty queue and is
  \<open>WAITING\<close>.
\<close>

theorem execute_lane_time_slice_batch_witness:
  "queue (switch_lanes ! 0) = Some \<lparr>items = [1, 2], capacity = 20\<rparr> \<and>
   state (switch_lanes ! 0) = RUNNING \<and>
   execute_lane_time_slice True 100 101 102 switch_scheduler (switch_lanes ! 0) empty_metrics
     = slice_result \<and>
   queue (fst (snd slice_result)) = Some \<lparr>items = [2], capacity = 20\<rparr> \<and>
   state (fst (snd slice_result)) = RUNNING \<and>
   queue (fst (snd last_slice_result)) = Some \<lparr>items = [], capacity = 20\<rparr> \<and>
   state (fst (snd last_slice_result)) = WAITING"
proof -
  have q: "queue (switch_lanes ! 0) = Some \<lparr>items = [1, 2], capacity = 20\<rparr>"
    and st: "state (switch_lanes ! 0) = RUNNING"
    by (simp_all add: example_defs model_defs)
  have run: "execute_lane_time_slice True 100 101 102 switch_scheduler (switch_lanes ! 0)
               empty_metrics
             = (fst slice_result, fst (snd slice_result), snd (snd slice_result))"
    by (simp add: slice_result_def)
  have q': "queue (fst (snd slice_result)) = Some \<lparr>items = [2], capacity = 20\<rparr>"
    by (simp add: example_defs model_defs Let_def)
  from execute_lane_time_slice_batch [OF q run] q'
  have "state (fst (snd slice_result)) = state (switch_lanes ! 0)"
    by auto
  moreover have "queue (fst (snd last_slice_result)) = Some \<lparr>items = [], capacity = 20\<rparr>"
    "state (fst (snd last_slice_result)) = WAITING"
    by (simp_all add: example_defs model_defs Let_def)
  ultimately show ?thesis
    using q st q' by (simp add: slice_result_def)
qed

section \<open>Releasing quadrants\<close>

lemma sum_list_allocated_update:
  "i < length ls \<Longrightarrow>
   sum_list (map allocated_quadrants (ls[i := l])) =
     sum_list (map allocated_quadrants ls) - allocated_quadrants (ls ! i) + allocated_quadrants l"
proof (induction ls arbitrary: i)
  case Nil
  then show ?case by simp
next
  case (Cons x xs)
  then show ?case by (cases i) simp_all
qed

text \<open>
  Claim C9: \<^verbatim>\<open>release_intersection_quadrants\<close> always succeeds: it is defined for every
  lane and has no failing branch; after the call the allocated and the requested quadrants
  of the lane are both zero, and the available pool has grown by what the lane held.
\<close>

theorem release_intersection_quadrants_clears:
  assumes "i < length ls"
  shows "allocated_quadrants (release_intersection_quadrants (ls ! i)) = 0 \<and>
         requested_quadrants (release_intersection_quadrants (ls ! i)) = 0 \<and>
         available_quadrants (ls[i := release_intersection_quadrants (ls ! i)])
           = available_quadrants ls + allocated_quadrants (ls ! i)"
  using assms
  by (simp add: release_intersection_quadrants_def available_quadrants_def
      sum_list_allocated_update)

text \<open>
  Witness for C9: lane 0 holds 3 of the 4 quadrants and lane 1 holds 1, so none is
  available; after lane 0 has released, it holds and requests none and 3 are available.
\<close>

theorem release_intersection_quadrants_clears_witness:
  "0 < length quadrant_lanes \<and>
   allocated_quadrants (quadrant_lanes ! 0) = 3 \<and>
   available_quadrants quadrant_lanes = 0 \<and>
   allocated_quadrants (release_intersection_quadrants (quadrant_lanes ! 0)) = 0 \<and>
   requested_quadrants (release_intersection_quadrants (quadrant_lanes ! 0)) = 0 \<and>
   available_quadrants (quadrant_lanes[0 := release_intersection_quadrants (quadrant_lanes ! 0)])
     = 3"
proof -
  have len: "0 < length quadrant_lanes"
    by (simp add: example_defs)
  have before: "allocated_quadrants (quadrant_lanes ! 0) = 3"
    "available_quadrants quadrant_lanes = 0"
    by (simp_all add: example_defs model_defs available_quadrants_def TOTAL_QUADRANTS_def)
  from release_intersection_quadrants_clears [OF len] len before show ?thesis
    by simp
qed

section \<open>The emergency key\<close>

lemma key_values:
  "key CHR ''e'' = 101" "key CHR ''E'' = 69" "key CHR ''q'' = 113" "key CHR ''Q'' = 81"
  "key CHR '' '' = 32" "key CHR ''1'' = 49" "key CHR ''2'' = 50" "key CHR ''3'' = 51"
  "key CHR ''h'' = 104" "key CHR ''H'' = 72"
  by (simp_all add: key_def)

text \<open>
  Claim C8: the command \<open>triggerEmergency\<close> of the interface maps to the emergency
  preemption of the core: pressing \<open>e\<close> or \<open>E\<close> triggers an emergency for a lane, which
  sets a flag that \<^verbatim>\<open>schedule_next_lane\<close> consults before the policy runs. The code does
  not do this: the call in the \<open>e\<close> case of \<^verbatim>\<open>handle_user_input\<close> is commented out, so no
  key changes the emergency system, and outside the help screen the keys \<open>e\<close> and \<open>E\<close>
  return with the whole system as it was; \<^verbatim>\<open>schedule_next_lane\<close> reads no flag.
\<close>

theorem emergency_key_is_ignored:
  "emergency_system (snd (handle_user_input ch lf s)) = emergency_system s \<and>
   handle_user_input (key CHR ''e'') lf (s\<lparr>show_help := False\<rparr>)
     = (key CHR ''e'', s\<lparr>show_help := False\<rparr>) \<and>
   handle_user_input (key CHR ''E'') lf (s\<lparr>show_help := False\<rparr>)
     = (key CHR ''E'', s\<lparr>show_help := False\<rparr>)"
proof -
  obtain r s' where run: "handle_user_input ch lf s = (r, s')"
    by (cases "handle_user_input ch lf s")
  have "emergency_system s' = emergency_system s"
    using handle_user_input_effect [OF run]
    by (auto simp: switch_algorithm_def split: prod.splits)
  with run show ?thesis
    by (simp add: handle_user_input_def key_values)
qed

end
